theory Spec2Isabelle
  imports Complex_Main "HOL-Library.Sublist" "HOL-Library.Multiset" "HOL-Library.Log_Nat"
begin

section \<open>Python strings and paths\<close>

text \<open>
  A Python \<open>str\<close> is a sequence of Unicode code points. It is modelled as a list of
  natural numbers, one element per character, so that \<open>len(text)\<close> is \<open>length text\<close>.
  \<open>ascii\<close> gives the \<open>str\<close> of an ASCII literal. The expression \<open>a in b\<close> on two
  strings (substring test) is \<open>sublist a b\<close>.
\<close>

type_synonym pystr = "nat list"

definition ascii :: "string \<Rightarrow> pystr" where
  "ascii s = map of_char s"

text \<open>
  \<open>str.isspace\<close> on one character. These are all the code points for which it holds:
  the ASCII controls 0x09..0x0D and 0x1C..0x1F, the blank, U+0085, U+00A0, U+1680,
  U+2000..U+200A, U+2028, U+2029, U+202F, U+205F and U+3000.
\<close>

definition py_isspace :: "nat \<Rightarrow> bool" where
  "py_isspace c =
     ((0x09 \<le> c \<and> c \<le> 0x0D) \<or> (0x1C \<le> c \<and> c \<le> 0x20) \<or> c = 0x85 \<or> c = 0xA0
      \<or> c = 0x1680 \<or> (0x2000 \<le> c \<and> c \<le> 0x200A) \<or> c = 0x2028 \<or> c = 0x2029
      \<or> c = 0x202F \<or> c = 0x205F \<or> c = 0x3000)"

text \<open>\<open>str.strip()\<close>: whitespace is removed at both ends.\<close>

definition py_strip :: "pystr \<Rightarrow> pystr" where
  "py_strip s = rev (dropWhile py_isspace (rev (dropWhile py_isspace s)))"

text \<open>
  \<open>str.lower()\<close>. On a string of ASCII characters it replaces the 26 capital letters
  and keeps every other character. On a string with a character outside ASCII it is
  given by the Unicode character database, which is a parameter of the model:
  \<open>unicode_lower\<close> stands for \<open>str.lower\<close> on such strings.
\<close>

definition ascii_lower :: "nat \<Rightarrow> nat" where
  "ascii_lower c = (if 0x41 \<le> c \<and> c \<le> 0x5A then c + 0x20 else c)"

definition py_lower :: "(pystr \<Rightarrow> pystr) \<Rightarrow> pystr \<Rightarrow> pystr" where
  "py_lower unicode_lower s =
     (if list_all (\<lambda>c. c < 0x80) s then map ascii_lower s else unicode_lower s)"

text \<open>\<open>str.startswith\<close> and \<open>str.endswith\<close>.\<close>

definition startswith :: "pystr \<Rightarrow> pystr \<Rightarrow> bool" where
  "startswith s p = prefix p s"

definition endswith :: "pystr \<Rightarrow> pystr \<Rightarrow> bool" where
  "endswith s p = suffix p s"

text \<open>
  A \<open>pathlib.Path\<close> is modelled by its string form \<open>str(path)\<close>, which is normalised (no
  trailing separator), on a POSIX system. \<open>Path(p).name\<close> is the text after the last
  separator \<open>/\<close> (code point 0x2F).
\<close>

definition path_name :: "pystr \<Rightarrow> pystr" where
  "path_name p = rev (takeWhile (\<lambda>c. c \<noteq> 0x2F) (rev p))"

text \<open>
  \<open>Path.suffix\<close>, from the name: with \<open>i = name.rfind('.')\<close> (the dot is code point
  0x2E), the suffix is \<open>name[i:]\<close> when \<open>0 < i < len(name) - 1\<close> and the empty string
  otherwise.
\<close>

definition name_suffix :: "pystr \<Rightarrow> pystr" where
  "name_suffix name =
     (if 0x2E \<notin> set name then []
      else let i = length name - length (takeWhile (\<lambda>c. c \<noteq> 0x2E) (rev name)) - 1
           in if 0 < i \<and> i + 1 < length name then drop i name else [])"

definition path_suffix :: "pystr \<Rightarrow> pystr" where
  "path_suffix p = name_suffix (path_name p)"

text \<open>\<open>project_path / relative_path\<close>, as a string.\<close>

definition path_join :: "pystr \<Rightarrow> pystr \<Rightarrow> pystr" where
  "path_join base rel = (if base = [0x2F] then base @ rel else base @ [0x2F] @ rel)"

section \<open>Python floats\<close>

text \<open>
  A Python float is an IEEE 754 binary64 number. A finite float is modelled by the
  rational number that it is. \<open>float_round\<close> rounds a rational to the nearest number
  with a 53-bit significand, ties to the even significand; the exponent range is not
  bounded in the model, which is exact for magnitudes between \<open>2 ^ -1022\<close> and the
  largest float. A decimal literal denotes the float nearest to it, and the product
  of two floats is the float nearest to the exact product.
\<close>

definition round_half_even :: "rat \<Rightarrow> int" where
  "round_half_even x =
     (let n = \<lfloor>x\<rfloor>; r = x - of_int n
      in if r < 1 / 2 then n else if 1 / 2 < r then n + 1 else if even n then n else n + 1)"

text \<open>The binary exponent of a positive rational: the \<open>e\<close> with \<open>2 ^ e \<le> x < 2 ^ (e + 1)\<close>.\<close>

definition binary_exponent :: "rat \<Rightarrow> int" where
  "binary_exponent x =
     (if 1 \<le> x then int (floorlog 2 (nat \<lfloor>x\<rfloor>)) - 1
      else - int (floorlog 2 (nat (\<lceil>1 / x\<rceil> - 1))))"

definition float_round :: "rat \<Rightarrow> rat" where
  "float_round x =
     (if x = 0 then 0
      else let e = binary_exponent \<bar>x\<bar>; ulp = 2 powi (e - 52)
           in sgn x * of_int (round_half_even (\<bar>x\<bar> / ulp)) * ulp)"

definition flit :: "rat \<Rightarrow> rat" where
  "flit literal = float_round literal"

definition fmul :: "rat \<Rightarrow> rat \<Rightarrow> rat" where
  "fmul a b = float_round (a * b)"

section \<open>Token counting\<close>

text \<open>
  \<open>TIKTOKEN_AVAILABLE\<close> and \<open>encoding\<close> are module globals set at import time. They are
  modelled by one value: \<open>None\<close> when tiktoken could not be imported, \<open>Some encode\<close>
  otherwise, where \<open>encode text\<close> is the token list of \<open>encoding.encode(text)\<close>, or \<open>None\<close>
  when that call raises.
\<close>

type_synonym tokenizer = "(pystr \<Rightarrow> nat list option) option"

definition count_tokens :: "tokenizer \<Rightarrow> pystr \<Rightarrow> int option" where
  "count_tokens tk text =
     (case tk of
        Some encode \<Rightarrow> map_option (\<lambda>ts. int (length ts)) (encode text)
      | None \<Rightarrow> Some (int (length text) div 4))"

text \<open>The estimator as the specification words it: the ceiling of a quarter of the
  length.\<close>

definition spec_fallback_estimate :: "pystr \<Rightarrow> int" where
  "spec_fallback_estimate text = \<lceil>rat_of_nat (length text) / 4\<rceil>"

section \<open>File records\<close>

text \<open>
  The dictionary \<open>file_info\<close> built by \<open>scan_codebase\<close>. \<open>calculate_relevance_score\<close>
  receives it before the key \<open>relevance_score\<close> is added, so the record is declared in two
  steps. The score is a float.
\<close>

record file_base =
  path :: pystr
  relative_path :: pystr
  content :: pystr
  tokens :: int
  size_chars :: nat
  modified :: int
  language :: pystr

record file_info = file_base +
  relevance_score :: rat

section \<open>CodebaseIngestion\<close>

definition CODE_EXTENSIONS :: "pystr set" where
  "CODE_EXTENSIONS = ascii `
     {''.py'', ''.js'', ''.ts'', ''.jsx'', ''.tsx'', ''.java'', ''.cpp'', ''.c'', ''.h'',
      ''.cs'', ''.php'', ''.rb'', ''.go'', ''.rs'', ''.swift'', ''.kt'', ''.scala'',
      ''.html'', ''.css'', ''.scss'', ''.vue'', ''.svelte'', ''.md'', ''.yml'', ''.yaml'',
      ''.json'', ''.xml'', ''.sql'', ''.sh'', ''.dockerfile'', ''.tf'', ''.tf''}"

definition SKIP_PATTERNS :: "pystr set" where
  "SKIP_PATTERNS = ascii `
     {''node_modules'', ''.git'', ''__pycache__'', ''.venv'', ''venv'', ''dist'',
      ''build'', ''.next'', ''.nuxt'', ''target'', ''bin'', ''obj'', ''.idea'',
      ''.vscode'', ''coverage'', ''.pytest_cache'', ''.mypy_cache'',
      ''*.lock'', ''package-lock.json'', ''yarn.lock'', ''*.log''}"

definition language_map :: "(pystr \<times> pystr) list" where
  "language_map = map (\<lambda>(ext, lang). (ascii ext, ascii lang))
     [(''.py'', ''python''), (''.js'', ''javascript''), (''.ts'', ''typescript''),
      (''.jsx'', ''react''), (''.tsx'', ''react-ts''), (''.java'', ''java''),
      (''.cpp'', ''cpp''), (''.c'', ''c''), (''.h'', ''c-header''),
      (''.cs'', ''csharp''), (''.php'', ''php''), (''.rb'', ''ruby''),
      (''.go'', ''go''), (''.rs'', ''rust''), (''.swift'', ''swift''),
      (''.kt'', ''kotlin''), (''.scala'', ''scala''), (''.html'', ''html''),
      (''.css'', ''css''), (''.scss'', ''scss''), (''.vue'', ''vue''),
      (''.svelte'', ''svelte''), (''.md'', ''markdown''), (''.yml'', ''yaml''),
      (''.yaml'', ''yaml''), (''.json'', ''json''), (''.xml'', ''xml''),
      (''.sql'', ''sql''), (''.sh'', ''bash''), (''.dockerfile'', ''docker''),
      (''.tf'', ''terraform'')]"

text \<open>\<open>d.get(k, default)\<close> on a dictionary given by its items.\<close>

definition dict_get :: "('k \<times> 'v) list \<Rightarrow> 'k \<Rightarrow> 'v \<Rightarrow> 'v" where
  "dict_get d k dflt = (case map_of d k of Some v \<Rightarrow> v | None \<Rightarrow> dflt)"

definition get_language :: "(pystr \<Rightarrow> pystr) \<Rightarrow> pystr \<Rightarrow> pystr" where
  "get_language unicode_lower file_path =
     (let ext = py_lower unicode_lower (path_suffix file_path)
      in dict_get language_map ext (ascii ''unknown''))"

definition language_weights :: "(pystr \<times> rat) list" where
  "language_weights = map (\<lambda>(lang, w). (ascii lang, flit w))
     [(''python'', 12 / 10), (''javascript'', 12 / 10), (''typescript'', 13 / 10),
      (''java'', 12 / 10), (''cpp'', 11 / 10), (''go'', 12 / 10), (''rust'', 12 / 10),
      (''css'', 8 / 10), (''html'', 7 / 10), (''json'', 6 / 10), (''yaml'', 5 / 10)]"

text \<open>
  The four stages of \<open>calculate_relevance_score\<close>. The first one always multiplies the
  score, by \<open>language_weights.get(language, 1.0)\<close>. Each of the other three is an
  \<open>if\<close>/\<open>elif\<close> chain of statements \<open>score *= w\<close>: the stage's factor is \<open>Some w\<close> for
  the \<open>w\<close> of the first branch whose test holds, in the order of the source, and \<open>None\<close>
  when no branch is taken and the score is left as it is.
\<close>

definition language_factor :: "pystr \<Rightarrow> rat" where
  "language_factor lang = dict_get language_weights lang (flit 1)"

definition directory_factor :: "pystr \<Rightarrow> rat option" where
  "directory_factor p =
     (if \<exists>core_dir \<in> set (map ascii [''src/'', ''lib/'', ''core/'', ''app/'']).
           sublist core_dir p
        then Some (flit (13 / 10))
      else if \<exists>low_dir \<in> set (map ascii [''test/'', ''tests/'', ''docs/'', ''doc/'']).
           sublist low_dir p
        then Some (flit (7 / 10))
      else if \<exists>config_dir \<in> set (map ascii [''config/'', ''configs/'', ''settings/'']).
           sublist config_dir p
        then Some (flit (6 / 10))
      else None)"

definition size_factor :: "int \<Rightarrow> rat option" where
  "size_factor t =
     (if t < 100 then Some (flit (11 / 10))
      else if t > 5000 then Some (flit (8 / 10))
      else if t > 10000 then Some (flit (6 / 10))
      else None)"

definition filename_factor :: "(pystr \<Rightarrow> pystr) \<Rightarrow> pystr \<Rightarrow> rat option" where
  "filename_factor unicode_lower p =
     (let filename = py_lower unicode_lower (path_name p)
      in if filename \<in> set (map ascii
              [''main.py'', ''index.js'', ''app.py'', ''server.py'', ''main.go''])
           then Some (flit (15 / 10))
         else if startswith filename (ascii ''test_'') \<or> endswith filename (ascii ''_test.py'')
           then Some (flit (7 / 10))
         else None)"

text \<open>\<open>score *= w\<close> inside a branch, or nothing when no branch is taken.\<close>

definition scaled :: "rat \<Rightarrow> rat option \<Rightarrow> rat" where
  "scaled score factor = (case factor of Some w \<Rightarrow> fmul score w | None \<Rightarrow> score)"

definition calculate_relevance_score ::
  "(pystr \<Rightarrow> pystr) \<Rightarrow> 'a file_base_scheme \<Rightarrow> pystr \<Rightarrow> rat"
where
  "calculate_relevance_score unicode_lower file_info project_root =
     scaled
       (scaled
          (scaled (fmul (flit 1) (language_factor (language file_info)))
             (directory_factor (relative_path file_info)))
          (size_factor (tokens file_info)))
       (filename_factor unicode_lower (relative_path file_info))"

subsection \<open>The file system seen by \<open>scan_codebase\<close>\<close>

text \<open>
  One path produced by \<open>project_path.rglob('*')\<close>, with what the loop body asks of it:
  \<^item> \<open>rel_path\<close>: \<open>str(file_path.relative_to(project_path))\<close>;
  \<^item> \<open>is_dir\<close>: the result of \<open>file_path.is_dir()\<close>;
  \<^item> \<open>read_text\<close>: the text returned by \<open>open(file_path, 'r', encoding='utf-8',
    errors='ignore').read()\<close>, or \<open>None\<close> when opening or reading raises;
  \<^item> \<open>mtime\<close>: \<open>datetime.fromtimestamp(file_path.stat().st_mtime)\<close> as a number, or
    \<open>None\<close> when it raises.
\<close>

record entry =
  rel_path :: pystr
  is_dir :: bool
  read_text :: "pystr option"
  mtime :: "int option"

text \<open>
  The file system: \<open>os.path.exists\<close>, \<open>Path.resolve\<close> and the paths of \<open>rglob('*')\<close> in
  the order in which the walk yields them.
\<close>

record file_system =
  path_exists :: "pystr \<Rightarrow> bool"
  resolve :: "pystr \<Rightarrow> pystr"
  rglob :: "pystr \<Rightarrow> entry list"

subsection \<open>\<open>scan_codebase\<close>\<close>

text \<open>
  The body of the first loop for one path: \<open>None\<close> is \<open>continue\<close> (also the
  \<open>continue\<close> of the \<open>except Exception\<close> clause), \<open>Some file_info\<close> is the record
  appended to \<open>files_info\<close>.
\<close>

definition scan_file ::
  "tokenizer \<Rightarrow> (pystr \<Rightarrow> pystr) \<Rightarrow> pystr \<Rightarrow> entry \<Rightarrow> file_info option"
where
  "scan_file tk unicode_lower ppath e =
     (let file_path = path_join ppath (rel_path e);
          rel = rel_path e
      in if is_dir e \<or> startswith (path_name file_path) (ascii ''.'') then None
      else if \<exists>pattern \<in> SKIP_PATTERNS. sublist pattern rel then None
      else if py_lower unicode_lower (path_suffix file_path) \<notin> CODE_EXTENSIONS then None
      else (case read_text e of
        None \<Rightarrow> None
      | Some text \<Rightarrow>
          if py_strip text = [] then None
          else (case count_tokens tk text of
            None \<Rightarrow> None
          | Some file_tokens \<Rightarrow>
              if file_tokens > 50000 then None
              else (case mtime e of
                None \<Rightarrow> None
              | Some m \<Rightarrow>
                  (let info = \<lparr>path = file_path,
                               relative_path = rel,
                               content = text,
                               tokens = file_tokens,
                               size_chars = length text,
                               modified = m,
                               language = get_language unicode_lower file_path\<rparr>
                   in Some (file_base.extend info
                        (file_info.fields
                           (calculate_relevance_score unicode_lower info ppath))))))))"

text \<open>The first loop, with its two accumulators \<open>files_info\<close> and \<open>total_tokens\<close>.\<close>

fun scan_loop ::
  "tokenizer \<Rightarrow> (pystr \<Rightarrow> pystr) \<Rightarrow> pystr \<Rightarrow> entry list \<Rightarrow> file_info list \<times> int
     \<Rightarrow> file_info list \<times> int"
where
  "scan_loop tk ul ppath [] (files_info, total_count) = (files_info, total_count)"
| "scan_loop tk ul ppath (e # es) (files_info, total_count) =
     (case scan_file tk ul ppath e of
        None \<Rightarrow> scan_loop tk ul ppath es (files_info, total_count)
      | Some info \<Rightarrow>
          scan_loop tk ul ppath es (files_info @ [info], total_count + tokens info))"

text \<open>
  \<open>xs.sort(key=k, reverse=True)\<close>: a stable sort by descending key. CPython reverses the
  list, sorts it stably in ascending order and reverses it again, so that elements with
  equal keys keep their order.
\<close>

definition sort_reverse :: "('a \<Rightarrow> 'k::linorder) \<Rightarrow> 'a list \<Rightarrow> 'a list" where
  "sort_reverse k xs = rev (sort_key k (rev xs))"

text \<open>
  The second loop (trimming to the token limit), with its accumulators
  \<open>selected_files\<close> and \<open>used_tokens\<close>; the \<open>else\<close> branch is the \<open>break\<close>.
\<close>

fun trim :: "file_info list \<Rightarrow> int \<Rightarrow> file_info list \<times> int \<Rightarrow> file_info list \<times> int" where
  "trim [] max_tokens (selected_files, used_tokens) = (selected_files, used_tokens)"
| "trim (info # rest) max_tokens (selected_files, used_tokens) =
     (if used_tokens + tokens info \<le> max_tokens
      then trim rest max_tokens (selected_files @ [info], used_tokens + tokens info)
      else (selected_files, used_tokens))"

record scan_result =
  files :: "file_info list"
  total_tokens :: int
  total_files :: nat
  scanned_files :: nat
  project_path :: pystr

text \<open>\<open>files_info\<close> when the first loop has ended: the accepted files in walk order.\<close>

definition files_in_walk_order ::
  "file_system \<Rightarrow> tokenizer \<Rightarrow> (pystr \<Rightarrow> pystr) \<Rightarrow> pystr \<Rightarrow> file_info list"
where
  "files_in_walk_order fs tk ul dir =
     fst (scan_loop tk ul (resolve fs dir) (rglob fs (resolve fs dir)) ([], 0))"

definition scan_codebase ::
  "file_system \<Rightarrow> tokenizer \<Rightarrow> (pystr \<Rightarrow> pystr) \<Rightarrow> pystr \<Rightarrow> int \<Rightarrow> scan_result"
where
  "scan_codebase fs tk ul dir max_tokens =
     (let ppath = resolve fs dir;
          files_info = sort_reverse relevance_score (files_in_walk_order fs tk ul dir);
          (selected_files, used_tokens) = trim files_info max_tokens ([], 0)
      in \<lparr>files = selected_files,
          total_tokens = used_tokens,
          total_files = length selected_files,
          scanned_files = length files_info,
          project_path = ppath\<rparr>)"

section \<open>ContextManager\<close>

text \<open>\<open>str(n)\<close> for an integer, and \<open>format(n, ',')\<close>: the decimal digits, grouped in threes
  by commas from the right.\<close>

fun digits :: "nat \<Rightarrow> string" where
  "digits n =
     (if n < 10 then [''0123456789'' ! n]
      else digits (n div 10) @ [''0123456789'' ! (n mod 10)])"

definition str_int :: "int \<Rightarrow> pystr" where
  "str_int i = ascii (if i < 0 then ''-'' @ digits (nat (- i)) else digits (nat i))"

fun group3 :: "string \<Rightarrow> string" where
  "group3 (a # b # c # d # rest) = a # b # c # CHR '','' # group3 (d # rest)"
| "group3 ds = ds"

definition str_int_commas :: "int \<Rightarrow> pystr" where
  "str_int_commas i =
     ascii (if i < 0 then ''-'' @ rev (group3 (rev (digits (nat (- i)))))
            else rev (group3 (rev (digits (nat i)))))"

text \<open>
  The mark before a file heading: the four characters U+F8FF, U+00FC, U+00EC and
  U+00C5 that the source file holds at that place.
\<close>

definition heading_mark :: pystr where
  "heading_mark = [0xF8FF, 0xFC, 0xEC, 0xC5]"

text \<open>The \<open>scan_codebase\<close> result read by \<open>create_codebase_context\<close> is any dictionary with
  the five keys; the header is the first f-string.\<close>

definition header :: "scan_result \<Rightarrow> pystr" where
  "header codebase_data =
     ascii ''# INTELLIGENT CODEBASE ANALYSIS CONTEXT\<newline>\<newline>'' @
     ascii ''## PROJECT OVERVIEW\<newline>'' @
     ascii ''- **Path:** '' @ project_path codebase_data @ ascii ''\<newline>'' @
     ascii ''- **Files Loaded:** '' @ str_int (int (total_files codebase_data)) @
       ascii '' (out of '' @ str_int (int (scanned_files codebase_data)) @
       ascii '' scanned)\<newline>'' @
     ascii ''- **Total Tokens:** '' @ str_int_commas (total_tokens codebase_data) @
       ascii ''\<newline>'' @
     ascii ''- **Analysis Capabilities:** Architecture, Semantic Search, Improvements, Code Flow\<newline>'' @
     ascii ''\<newline>## CODEBASE STRUCTURE\<newline>\<newline>''"

definition footer :: pystr where
  "footer =
     ascii ''\<newline>## ANALYSIS INSTRUCTIONS:\<newline>'' @
     ascii ''You now have the complete codebase loaded in your context with intelligent file prioritization.\<newline>'' @
     ascii ''When answering questions:\<newline>'' @
     ascii ''1. Reference specific files and line numbers when possible\<newline>'' @
     ascii ''2. Consider the overall architecture and relationships between files\<newline>'' @
     ascii ''3. Provide concrete, actionable insights\<newline>'' @
     ascii ''4. Focus on the most relevant files based on the user'' @ [0x27] @
       ascii ''s query\<newline>'' @
     ascii ''5. Use your understanding of the complete codebase context\<newline>''"

text \<open>
  The two loops of \<open>create_codebase_context\<close>, each with the accumulator \<open>context\<close> to
  which the source appends an f-string with \<open>+=\<close>. \<open>fmt2f\<close> stands for Python's
  \<open>format(score, '.2f')\<close>; it is a parameter of the model.
\<close>

fun tree_loop :: "(rat \<Rightarrow> pystr) \<Rightarrow> file_info list \<Rightarrow> pystr \<Rightarrow> pystr" where
  "tree_loop fmt2f [] ctx = ctx"
| "tree_loop fmt2f (file_info # rest) ctx =
     tree_loop fmt2f rest
       (ctx @ (ascii ''- '' @ relative_path file_info @ ascii '' ('' @ language file_info
          @ ascii '', '' @ str_int (tokens file_info) @ ascii '' tokens, score: ''
          @ fmt2f (relevance_score file_info) @ ascii '')\<newline>''))"

fun contents_loop :: "file_info list \<Rightarrow> pystr \<Rightarrow> pystr" where
  "contents_loop [] ctx = ctx"
| "contents_loop (file_info # rest) ctx =
     contents_loop rest
       ((ctx @ (ascii ''### '' @ heading_mark @ ascii '' '' @ relative_path file_info
           @ ascii '' ('' @ language file_info @ ascii '')\<newline>''))
        @ (ascii ''```'' @ language file_info @ ascii ''\<newline>'' @ content file_info
           @ ascii ''\<newline>```\<newline>\<newline>''))"

definition create_codebase_context :: "(rat \<Rightarrow> pystr) \<Rightarrow> scan_result \<Rightarrow> pystr" where
  "create_codebase_context fmt2f codebase_data =
     (let ctx = header codebase_data;
          ctx = ctx @ ascii ''### File Tree:\<newline>'';
          ctx = tree_loop fmt2f (take 20 (files codebase_data)) ctx;
          ctx = (if length (files codebase_data) > 20
                 then ctx @ (ascii ''... and '' @ str_int (int (length (files codebase_data)) - 20)
                        @ ascii '' more files\<newline>'')
                 else ctx);
          ctx = ctx @ ascii ''\<newline>## COMPLETE FILE CONTENTS:\<newline>\<newline>'';
          ctx = contents_loop (files codebase_data) ctx;
          ctx = ctx @ footer
      in ctx)"




section \<open>The \<open>load_codebase\<close> tool\<close>

text \<open>The three module globals that hold the current session.\<close>

record session =
  current_codebase_context :: "pystr option"
  current_project_path :: "pystr option"
  current_codebase_data :: "scan_result option"

text \<open>
  The text \<open>result\<close> of the \<open>load_codebase\<close> branch is one of two f-strings: the error
  text built from \<open>project_path\<close>, or the summary built from \<open>codebase_data\<close>. The
  response of \<open>handle_tool_call\<close> is a JSON-RPC result carrying that text, or the JSON-RPC
  error of the \<open>except Exception\<close> clause, with its \<open>code\<close> and its \<open>message\<close>, which is
  \<open>str(e)\<close> of the exception \<open>e\<close> that was raised.
\<close>

datatype tool_text =
  Project_path_does_not_exist pystr
| Codebase_loaded scan_result

datatype response =
  Tool_result tool_text
| Error_response int pystr

text \<open>
  \<open>handle_tool_call\<close> for \<open>tool_name == "load_codebase"\<close>. The arguments are
  \<open>arguments.get("project_path")\<close> and \<open>arguments.get("max_tokens", 900000)\<close>; with no
  \<open>project_path\<close>, \<open>os.path.exists(None)\<close> raises a \<open>TypeError\<close>, which the \<open>except\<close>
  clause turns into the error response with the code -32603 and the text of the
  exception (the one of CPython's \<open>os.stat\<close>).
\<close>

definition handle_load_codebase ::
  "file_system \<Rightarrow> tokenizer \<Rightarrow> (pystr \<Rightarrow> pystr) \<Rightarrow> (rat \<Rightarrow> pystr) \<Rightarrow> pystr option
     \<Rightarrow> int option \<Rightarrow> session \<Rightarrow> response \<times> session"
where
  "handle_load_codebase fs tk ul fmt2f project_path_arg max_tokens_arg st =
     (let max_tokens = (case max_tokens_arg of Some n \<Rightarrow> n | None \<Rightarrow> 900000)
      in case project_path_arg of
        None \<Rightarrow>
          (Error_response (- 32603)
             (ascii ''stat: path should be string, bytes, os.PathLike or integer, not NoneType''),
           st)
      | Some ppath \<Rightarrow>
          if \<not> path_exists fs ppath
          then (Tool_result (Project_path_does_not_exist ppath), st)
          else (let codebase_data = scan_codebase fs tk ul ppath max_tokens
                in (Tool_result (Codebase_loaded codebase_data),
                    st\<lparr>current_codebase_context :=
                          Some (create_codebase_context fmt2f codebase_data),
                       current_project_path := Some ppath,
                       current_codebase_data := Some codebase_data\<rparr>)))"

section \<open>Concrete inputs\<close>

text \<open>A regular file that can be read, a directory, and the file system made of one
  project directory whose walk yields the given paths.\<close>

definition file_entry :: "string \<Rightarrow> pystr \<Rightarrow> int \<Rightarrow> entry" where
  "file_entry rel text m =
     \<lparr>rel_path = ascii rel, is_dir = False, read_text = Some text, mtime = Some m\<rparr>"

definition dir_entry :: "string \<Rightarrow> entry" where
  "dir_entry rel = \<lparr>rel_path = ascii rel, is_dir = True, read_text = None, mtime = Some 0\<rparr>"

definition tree_fs :: "pystr \<Rightarrow> entry list \<Rightarrow> file_system" where
  "tree_fs project walk =
     \<lparr>path_exists = (\<lambda>p. p = project \<or> p \<in> set (map (\<lambda>e. path_join project (rel_path e)) walk)),
      resolve = (\<lambda>p. p),
      rglob = (\<lambda>p. if p = project then walk else [])\<rparr>"

text \<open>A candidate record with a given relative path, language, token count and score.\<close>

definition candidate :: "string \<Rightarrow> string \<Rightarrow> int \<Rightarrow> rat \<Rightarrow> file_info" where
  "candidate rel lang n s =
     \<lparr>path = path_join (ascii ''/proj'') (ascii rel), relative_path = ascii rel,
      content = ascii ''x'', tokens = n, size_chars = 1, modified = 0, language = ascii lang,
      relevance_score = s\<rparr>"

text \<open>
  The scenario of three files: \<open>src/app.py\<close> and \<open>tests/test_app.py\<close> of 3200
  characters each (800 tokens for the fallback estimator) and \<open>README.md\<close> of 800
  characters (200 tokens), in a project directory \<open>/proj\<close>.
\<close>

definition app_py_text :: pystr where
  "app_py_text = replicate 3200 (of_char CHR ''a'')"

definition test_app_py_text :: pystr where
  "test_app_py_text = replicate 3200 (of_char CHR ''t'')"

definition readme_md_text :: pystr where
  "readme_md_text = replicate 800 (of_char CHR ''r'')"

definition scenario_walk :: "entry list" where
  "scenario_walk =
     [file_entry ''README.md'' readme_md_text 0,
      dir_entry ''src'',
      file_entry ''src/app.py'' app_py_text 0,
      dir_entry ''tests'',
      file_entry ''tests/test_app.py'' test_app_py_text 0]"

definition scenario_fs :: file_system where
  "scenario_fs = tree_fs (ascii ''/proj'') scenario_walk"

text \<open>Three candidates for the second loop: the second one does not fit a budget of 1000
  after the first, the third one would.\<close>

definition greedy_candidates :: "file_info list" where
  "greedy_candidates =
     [candidate ''a.py'' ''python'' 800 3, candidate ''b.py'' ''python'' 800 2,
      candidate ''c.py'' ''python'' 200 1]"

text \<open>A project with one file whose extension is in capital letters, and a project
  with one file inside a hidden directory.\<close>

definition capitals_fs :: file_system where
  "capitals_fs = tree_fs (ascii ''/proj'') [file_entry ''SETUP.PY'' (ascii ''x = 1'') 0]"

definition hidden_dir_fs :: file_system where
  "hidden_dir_fs =
     tree_fs (ascii ''/proj'')
       [dir_entry ''.hidden'', file_entry ''.hidden/util.py'' (ascii ''x = 1'') 0]"

text \<open>
  A project with three small Python test files, which the walk meets in the order
  \<open>test_b.py\<close>, \<open>tests/a.py\<close>, \<open>test_c.py\<close>. The scores of the first and the third are
  the float product \<open>1.2 * 1.1 * 0.7\<close>; the score of the second is \<open>1.2 * 0.7 * 1.1\<close>,
  a different and larger float.
\<close>

definition ties_fs :: file_system where
  "ties_fs =
     tree_fs (ascii ''/proj'')
       [file_entry ''test_b.py'' (ascii ''x = 1'') 0, dir_entry ''tests'',
        file_entry ''tests/a.py'' (ascii ''x = 1'') 0,
        file_entry ''test_c.py'' (ascii ''x = 1'') 0]"


text \<open>The session before any load, and the session after the scenario was loaded with a
  budget of 1000 (with a stand-in for the two-decimal rendering of scores and for
  \<open>str.lower\<close> outside ASCII).\<close>

definition no_session :: session where
  "no_session = \<lparr>current_codebase_context = None, current_project_path = None,
                  current_codebase_data = None\<rparr>"

definition loaded_session :: session where
  "loaded_session =
     snd (handle_load_codebase scenario_fs None (\<lambda>s. s) (\<lambda>score. ascii ''#.##'')
            (Some (ascii ''/proj'')) (Some 1000) no_session)"

section \<open>Helper lemmas\<close>

subsection \<open>Floats\<close>

lemma floorlog_rat_bounds:
  assumes "0 < n"
  shows "(2::rat) powi (int (floorlog 2 n) - 1) \<le> rat_of_nat n"
    and "rat_of_nat n + 1 \<le> 2 powi int (floorlog 2 n)"
proof -
  from floorlog_bounds [of n 2] assms
  have b: "2 ^ (floorlog 2 n - 1) \<le> n" "n < 2 ^ floorlog 2 n" by auto
  have pos: "0 < floorlog 2 n" using assms by (simp add: floorlog_def)
  have "rat_of_nat (2 ^ (floorlog 2 n - 1)) \<le> rat_of_nat n" using b(1) by (rule of_nat_mono)
  moreover have "(2::rat) powi (int (floorlog 2 n) - 1) = 2 ^ (floorlog 2 n - 1)"
    using pos by (simp add: power_int_def nat_diff_distrib')
  ultimately show "(2::rat) powi (int (floorlog 2 n) - 1) \<le> rat_of_nat n" by simp
  have "n + 1 \<le> 2 ^ floorlog 2 n" using b(2) by simp
  then have "rat_of_nat (n + 1) \<le> rat_of_nat (2 ^ floorlog 2 n)" by (rule of_nat_mono)
  then show "rat_of_nat n + 1 \<le> 2 powi int (floorlog 2 n)" by (simp add: power_int_def)
qed

lemma binary_exponent_bounds:
  assumes "0 < x"
  shows "2 powi binary_exponent x \<le> x \<and> x < 2 powi (binary_exponent x + 1)"
proof (cases "1 \<le> x")
  case True
  define n where "n = nat \<lfloor>x\<rfloor>"
  have "1 \<le> \<lfloor>x\<rfloor>" using True by simp
  then have n0: "0 < n" by (simp add: n_def)
  have fl: "rat_of_nat n = of_int \<lfloor>x\<rfloor>" using \<open>1 \<le> \<lfloor>x\<rfloor>\<close> by (simp add: n_def)
  have n: "rat_of_nat n \<le> x" "x < rat_of_nat n + 1" unfolding fl by linarith+
  have e: "binary_exponent x = int (floorlog 2 n) - 1"
    using True by (simp add: binary_exponent_def n_def)
  from floorlog_rat_bounds [OF n0] n show ?thesis unfolding e by auto
next
  case False
  define y where "y = 1 / x"
  have y1: "1 < y" using False assms by (simp add: y_def)
  define c where "c = nat (\<lceil>y\<rceil> - 1)"
  have "2 \<le> \<lceil>y\<rceil>" using y1 by linarith
  then have c0: "0 < c" by (simp add: c_def)
  have cc: "rat_of_nat c = of_int \<lceil>y\<rceil> - 1" using \<open>2 \<le> \<lceil>y\<rceil>\<close> by (simp add: c_def)
  have c: "rat_of_nat c < y" "y \<le> rat_of_nat c + 1" unfolding cc by linarith+
  define k where "k = int (floorlog 2 c)"
  have e: "binary_exponent x = - k"
    using False by (simp add: binary_exponent_def c_def y_def k_def)
  from floorlog_rat_bounds [OF c0] c
  have yb: "2 powi (k - 1) < y" "y \<le> 2 powi k" unfolding k_def by auto
  have x: "x = 1 / y" using assms by (simp add: y_def)
  have p1: "(0::rat) < 2 powi (k - 1)" and p2: "(0::rat) < 2 powi k" by simp_all
  have "1 / (2 powi k) \<le> 1 / y" using yb(2) y1 by (intro divide_left_mono) auto
  moreover have "1 / y < 1 / (2 powi (k - 1))"
    using yb(1) p1 y1 by (intro divide_strict_left_mono) auto
  moreover have "1 / (2 powi k) = (2::rat) powi (- k)"
    by (simp add: power_int_minus field_simps)
  moreover have "1 / (2 powi (k - 1)) = (2::rat) powi (- k + 1)"
  proof -
    have "- k + 1 = - (k - 1)" by simp
    then show ?thesis by (simp only: power_int_minus inverse_eq_divide)
  qed
  ultimately have "2 powi (- k) \<le> x \<and> x < 2 powi (- k + 1)" by (simp add: x)
  then show ?thesis by (simp add: e)
qed

lemma binary_exponent_unique:
  assumes "2 powi e \<le> x" and "x < 2 powi (e + 1)"
  shows "binary_exponent x = e"
proof -
  have "(0::rat) < 2 powi e" by simp
  with assms(1) have pos: "0 < x" by linarith
  let ?b = "binary_exponent x"
  from binary_exponent_bounds [OF pos]
  have b: "2 powi ?b \<le> x" "x < 2 powi (?b + 1)" by auto
  have "e < ?b + 1"
  proof (rule ccontr)
    assume "\<not> e < ?b + 1"
    then have "(2::rat) powi (?b + 1) \<le> 2 powi e" by (intro power_int_increasing) auto
    with assms(1) b(2) show False by linarith
  qed
  moreover have "?b < e + 1"
  proof (rule ccontr)
    assume "\<not> ?b < e + 1"
    then have "(2::rat) powi (e + 1) \<le> 2 powi ?b" by (intro power_int_increasing) auto
    with assms(2) b(1) show False by linarith
  qed
  ultimately show ?thesis by simp
qed

lemma round_half_even_half:
  "round_half_even (rat_of_int n + 1 / 2) = (if even n then n else n + 1)"
proof -
  have f: "\<lfloor>rat_of_int n + 1 / 2\<rfloor> = n" by linarith
  show ?thesis unfolding round_half_even_def Let_def f by simp
qed

lemma round_half_even_eq:
  assumes "2 * rat_of_int m - 1 \<le> 2 * x" and "2 * x \<le> 2 * rat_of_int m + 1"
    and "2 * x = 2 * rat_of_int m - 1 \<or> 2 * x = 2 * rat_of_int m + 1 \<Longrightarrow> even m"
  shows "round_half_even x = m"
proof -
  consider "2 * x = 2 * rat_of_int m - 1" | "2 * x = 2 * rat_of_int m + 1"
    | "2 * rat_of_int m - 1 < 2 * x" "2 * x < 2 * rat_of_int m + 1"
    using assms(1,2) by linarith
  then show ?thesis
  proof cases
    case 1
    then have x: "x = rat_of_int (m - 1) + 1 / 2" by simp
    have "odd (m - 1)" using assms(3) 1 by simp
    then show ?thesis unfolding x round_half_even_half by simp
  next
    case 2
    then have x: "x = rat_of_int m + 1 / 2" by simp
    have "even m" using assms(3) 2 by simp
    then show ?thesis unfolding x round_half_even_half by simp
  next
    case 3
    then have "\<lfloor>x\<rfloor> = m \<or> \<lfloor>x\<rfloor> = m - 1" by linarith
    then show ?thesis
    proof
      assume f: "\<lfloor>x\<rfloor> = m"
      have "x - of_int m < 1 / 2" using 3(2) by simp
      then show ?thesis by (simp add: round_half_even_def f)
    next
      assume f: "\<lfloor>x\<rfloor> = m - 1"
      have "1 / 2 < x - of_int (m - 1)" using 3(1) by simp
      then show ?thesis by (simp add: round_half_even_def f)
    qed
  qed
qed

lemma float_round_eq:
  assumes "2 powi e \<le> x" and "x < 2 powi (e + 1)"
    and "(2 * rat_of_int m - 1) * 2 powi (e - 52) \<le> 2 * x"
    and "2 * x \<le> (2 * rat_of_int m + 1) * 2 powi (e - 52)"
    and "2 * x = (2 * rat_of_int m - 1) * 2 powi (e - 52)
         \<or> 2 * x = (2 * rat_of_int m + 1) * 2 powi (e - 52) \<Longrightarrow> even m"
  shows "float_round x = of_int m * 2 powi (e - 52)"
proof -
  have "(0::rat) < 2 powi e" by simp
  with assms(1) have pos: "0 < x" by linarith
  have u: "(0::rat) < 2 powi (e - 52)" by simp
  have "round_half_even (x / 2 powi (e - 52)) = m"
  proof (rule round_half_even_eq)
    show "2 * rat_of_int m - 1 \<le> 2 * (x / 2 powi (e - 52))"
      using assms(3) u by (simp add: field_simps)
    show "2 * (x / 2 powi (e - 52)) \<le> 2 * rat_of_int m + 1"
      using assms(4) u by (simp add: field_simps)
    assume "2 * (x / 2 powi (e - 52)) = 2 * rat_of_int m - 1
        \<or> 2 * (x / 2 powi (e - 52)) = 2 * rat_of_int m + 1"
    then have "2 * x = (2 * rat_of_int m - 1) * 2 powi (e - 52)
         \<or> 2 * x = (2 * rat_of_int m + 1) * 2 powi (e - 52)"
      using u by (auto simp: field_simps)
    then show "even m" by (rule assms(5))
  qed
  with pos show ?thesis
    by (simp add: float_round_def binary_exponent_unique [OF assms(1,2)])
qed

lemma flit_1: "flit 1 = 1"
proof -
  have "float_round 1 = of_int 4503599627370496 * 2 powi (0 - 52)"
    by (rule float_round_eq) simp_all
  then show ?thesis by (simp add: flit_def)
qed

lemma flit_12_10: "flit (12 / 10) = 5404319552844595 / 4503599627370496"
proof -
  have "float_round (12 / 10) = of_int 5404319552844595 * 2 powi (0 - 52)"
    by (rule float_round_eq) simp_all
  then show ?thesis by (simp add: flit_def)
qed

lemma flit_12_10_n: "flit (6 / 5) = 5404319552844595 / 4503599627370496"
proof -
  have "float_round (6 / 5) = of_int 5404319552844595 * 2 powi (0 - 52)"
    by (rule float_round_eq) simp_all
  then show ?thesis by (simp add: flit_def)
qed

lemma flit_13_10: "flit (13 / 10) = 5854679515581645 / 4503599627370496"
proof -
  have "float_round (13 / 10) = of_int 5854679515581645 * 2 powi (0 - 52)"
    by (rule float_round_eq) simp_all
  then show ?thesis by (simp add: flit_def)
qed

lemma flit_11_10: "flit (11 / 10) = 2476979795053773 / 2251799813685248"
proof -
  have "float_round (11 / 10) = of_int 4953959590107546 * 2 powi (0 - 52)"
    by (rule float_round_eq) simp_all
  then show ?thesis by (simp add: flit_def)
qed

lemma flit_8_10: "flit (8 / 10) = 3602879701896397 / 4503599627370496"
proof -
  have "float_round (8 / 10) = of_int 7205759403792794 * 2 powi (-1 - 52)"
    by (rule float_round_eq) simp_all
  then show ?thesis by (simp add: flit_def)
qed

lemma flit_8_10_n: "flit (4 / 5) = 3602879701896397 / 4503599627370496"
proof -
  have "float_round (4 / 5) = of_int 7205759403792794 * 2 powi (-1 - 52)"
    by (rule float_round_eq) simp_all
  then show ?thesis by (simp add: flit_def)
qed

lemma flit_7_10: "flit (7 / 10) = 3152519739159347 / 4503599627370496"
proof -
  have "float_round (7 / 10) = of_int 6305039478318694 * 2 powi (-1 - 52)"
    by (rule float_round_eq) simp_all
  then show ?thesis by (simp add: flit_def)
qed

lemma flit_6_10: "flit (6 / 10) = 5404319552844595 / 9007199254740992"
proof -
  have "float_round (6 / 10) = of_int 5404319552844595 * 2 powi (-1 - 52)"
    by (rule float_round_eq) simp_all
  then show ?thesis by (simp add: flit_def)
qed

lemma flit_6_10_n: "flit (3 / 5) = 5404319552844595 / 9007199254740992"
proof -
  have "float_round (3 / 5) = of_int 5404319552844595 * 2 powi (-1 - 52)"
    by (rule float_round_eq) simp_all
  then show ?thesis by (simp add: flit_def)
qed

lemma flit_15_10: "flit (15 / 10) = 3 / 2"
proof -
  have "float_round (15 / 10) = of_int 6755399441055744 * 2 powi (0 - 52)"
    by (rule float_round_eq) simp_all
  then show ?thesis by (simp add: flit_def)
qed

lemma flit_15_10_n: "flit (3 / 2) = 3 / 2"
proof -
  have "float_round (3 / 2) = of_int 6755399441055744 * 2 powi (0 - 52)"
    by (rule float_round_eq) simp_all
  then show ?thesis by (simp add: flit_def)
qed

lemma flit_5_10: "flit (5 / 10) = 1 / 2"
proof -
  have "float_round (5 / 10) = of_int 4503599627370496 * 2 powi (-1 - 52)"
    by (rule float_round_eq) simp_all
  then show ?thesis by (simp add: flit_def)
qed

lemma flit_5_10_n: "flit (1 / 2) = 1 / 2"
proof -
  have "float_round (1 / 2) = of_int 4503599627370496 * 2 powi (-1 - 52)"
    by (rule float_round_eq) simp_all
  then show ?thesis by (simp add: flit_def)
qed

lemma flit_234_100: "flit (234 / 100) = 658651445502935 / 281474976710656"
proof -
  have "float_round (234 / 100) = of_int 5269211564023480 * 2 powi (1 - 52)"
    by (rule float_round_eq) simp_all
  then show ?thesis by (simp add: flit_def)
qed

lemma flit_234_100_n: "flit (117 / 50) = 658651445502935 / 281474976710656"
proof -
  have "float_round (117 / 50) = of_int 5269211564023480 * 2 powi (1 - 52)"
    by (rule float_round_eq) simp_all
  then show ?thesis by (simp add: flit_def)
qed

lemma flit_588_1000: "flit (588 / 1000) = 5296233161787703 / 9007199254740992"
proof -
  have "float_round (588 / 1000) = of_int 5296233161787703 * 2 powi (-1 - 52)"
    by (rule float_round_eq) simp_all
  then show ?thesis by (simp add: flit_def)
qed

lemma flit_588_1000_n: "flit (147 / 250) = 5296233161787703 / 9007199254740992"
proof -
  have "float_round (147 / 250) = of_int 5296233161787703 * 2 powi (-1 - 52)"
    by (rule float_round_eq) simp_all
  then show ?thesis by (simp add: flit_def)
qed

lemma flit_132_100: "flit (132 / 100) = 5944751508129055 / 4503599627370496"
proof -
  have "float_round (132 / 100) = of_int 5944751508129055 * 2 powi (0 - 52)"
    by (rule float_round_eq) simp_all
  then show ?thesis by (simp add: flit_def)
qed

lemma flit_132_100_n: "flit (33 / 25) = 5944751508129055 / 4503599627370496"
proof -
  have "float_round (33 / 25) = of_int 5944751508129055 * 2 powi (0 - 52)"
    by (rule float_round_eq) simp_all
  then show ?thesis by (simp add: flit_def)
qed

lemma flit_96_100: "flit (96 / 100) = 1080863910568919 / 1125899906842624"
proof -
  have "float_round (96 / 100) = of_int 8646911284551352 * 2 powi (-1 - 52)"
    by (rule float_round_eq) simp_all
  then show ?thesis by (simp add: flit_def)
qed

lemma flit_96_100_n: "flit (24 / 25) = 1080863910568919 / 1125899906842624"
proof -
  have "float_round (24 / 25) = of_int 8646911284551352 * 2 powi (-1 - 52)"
    by (rule float_round_eq) simp_all
  then show ?thesis by (simp add: flit_def)
qed

lemma flit_924_1000: "flit (924 / 1000) = 8322652111380677 / 9007199254740992"
proof -
  have "float_round (924 / 1000) = of_int 8322652111380677 * 2 powi (-1 - 52)"
    by (rule float_round_eq) simp_all
  then show ?thesis by (simp add: flit_def)
qed

lemma flit_924_1000_n: "flit (231 / 250) = 8322652111380677 / 9007199254740992"
proof -
  have "float_round (231 / 250) = of_int 8322652111380677 * 2 powi (-1 - 52)"
    by (rule float_round_eq) simp_all
  then show ?thesis by (simp add: flit_def)
qed

lemma flit_156_100: "flit (156 / 100) = 3512807709348987 / 2251799813685248"
proof -
  have "float_round (156 / 100) = of_int 7025615418697974 * 2 powi (0 - 52)"
    by (rule float_round_eq) simp_all
  then show ?thesis by (simp add: flit_def)
qed

lemma flit_156_100_n: "flit (39 / 25) = 3512807709348987 / 2251799813685248"
proof -
  have "float_round (39 / 25) = of_int 7025615418697974 * 2 powi (0 - 52)"
    by (rule float_round_eq) simp_all
  then show ?thesis by (simp add: flit_def)
qed

lemma fmul_1_12: "fmul 1 (5404319552844595 / 4503599627370496) = 5404319552844595 / 4503599627370496"
proof -
  have "float_round (1 * (5404319552844595 / 4503599627370496)) = of_int 5404319552844595 * 2 powi (0 - 52)"
    by (rule float_round_eq) simp_all
  then show ?thesis by (simp add: fmul_def)
qed

lemma fmul_1_13: "fmul 1 (5854679515581645 / 4503599627370496) = 5854679515581645 / 4503599627370496"
proof -
  have "float_round (1 * (5854679515581645 / 4503599627370496)) = of_int 5854679515581645 * 2 powi (0 - 52)"
    by (rule float_round_eq) simp_all
  then show ?thesis by (simp add: fmul_def)
qed

lemma fmul_1_1: "fmul 1 1 = 1"
proof -
  have "float_round (1 * 1) = of_int 4503599627370496 * 2 powi (0 - 52)"
    by (rule float_round_eq) simp_all
  then show ?thesis by (simp add: fmul_def)
qed

lemma fmul_12_13: "fmul (5404319552844595 / 4503599627370496) (5854679515581645 / 4503599627370496) = 3512807709348987 / 2251799813685248"
proof -
  have "float_round (5404319552844595 / 4503599627370496 * (5854679515581645 / 4503599627370496)) = of_int 7025615418697974 * 2 powi (0 - 52)"
    by (rule float_round_eq) simp_all
  then show ?thesis by (simp add: fmul_def)
qed

lemma fmul_156_15: "fmul (3512807709348987 / 2251799813685248) (3 / 2) = 658651445502935 / 281474976710656"
proof -
  have "float_round (3512807709348987 / 2251799813685248 * (3 / 2)) = of_int 5269211564023480 * 2 powi (1 - 52)"
    by (rule float_round_eq) simp_all
  then show ?thesis by (simp add: fmul_def)
qed

lemma fmul_12_07: "fmul (5404319552844595 / 4503599627370496) (3152519739159347 / 4503599627370496) = 7566047373982433 / 9007199254740992"
proof -
  have "float_round (5404319552844595 / 4503599627370496 * (3152519739159347 / 4503599627370496)) = of_int 7566047373982433 * 2 powi (-1 - 52)"
    by (rule float_round_eq) simp_all
  then show ?thesis by (simp add: fmul_def)
qed

lemma fmul_084_07: "fmul (7566047373982433 / 9007199254740992) (3152519739159347 / 4503599627370496) = 5296233161787703 / 9007199254740992"
proof -
  have "float_round (7566047373982433 / 9007199254740992 * (3152519739159347 / 4503599627370496)) = of_int 5296233161787703 * 2 powi (-1 - 52)"
    by (rule float_round_eq) simp_all
  then show ?thesis by (simp add: fmul_def)
qed

lemma fmul_12_11: "fmul (5404319552844595 / 4503599627370496) (2476979795053773 / 2251799813685248) = 5944751508129055 / 4503599627370496"
proof -
  have "float_round (5404319552844595 / 4503599627370496 * (2476979795053773 / 2251799813685248)) = of_int 5944751508129055 * 2 powi (0 - 52)"
    by (rule float_round_eq) simp_all
  then show ?thesis by (simp add: fmul_def)
qed

lemma fmul_132_07: "fmul (5944751508129055 / 4503599627370496) (3152519739159347 / 4503599627370496) = 2080663027845169 / 2251799813685248"
proof -
  have "float_round (5944751508129055 / 4503599627370496 * (3152519739159347 / 4503599627370496)) = of_int 8322652111380676 * 2 powi (-1 - 52)"
    by (rule float_round_eq) simp_all
  then show ?thesis by (simp add: fmul_def)
qed

lemma fmul_084_11: "fmul (7566047373982433 / 9007199254740992) (2476979795053773 / 2251799813685248) = 8322652111380677 / 9007199254740992"
proof -
  have "float_round (7566047373982433 / 9007199254740992 * (2476979795053773 / 2251799813685248)) = of_int 8322652111380677 * 2 powi (-1 - 52)"
    by (rule float_round_eq) simp_all
  then show ?thesis by (simp add: fmul_def)
qed

lemma fmul_12_08: "fmul (5404319552844595 / 4503599627370496) (3602879701896397 / 4503599627370496) = 1080863910568919 / 1125899906842624"
proof -
  have "float_round (5404319552844595 / 4503599627370496 * (3602879701896397 / 4503599627370496)) = of_int 8646911284551352 * 2 powi (-1 - 52)"
    by (rule float_round_eq) simp_all
  then show ?thesis by (simp add: fmul_def)
qed

lemma fmul_12_06: "fmul (5404319552844595 / 4503599627370496) (5404319552844595 / 9007199254740992) = 3242591731706757 / 4503599627370496"
proof -
  have "float_round (5404319552844595 / 4503599627370496 * (5404319552844595 / 9007199254740992)) = of_int 6485183463413514 * 2 powi (-1 - 52)"
    by (rule float_round_eq) simp_all
  then show ?thesis by (simp add: fmul_def)
qed

lemmas float_eval = flit_1 flit_12_10 flit_12_10_n flit_13_10 flit_11_10 flit_8_10 flit_8_10_n
  flit_7_10 flit_6_10 flit_6_10_n flit_15_10 flit_15_10_n flit_5_10 flit_5_10_n flit_234_100
  flit_234_100_n flit_588_1000 flit_588_1000_n flit_132_100 flit_132_100_n flit_96_100
  flit_96_100_n flit_924_1000 flit_924_1000_n flit_156_100 flit_156_100_n fmul_1_12 fmul_1_13
  fmul_1_1 fmul_12_13 fmul_156_15 fmul_12_07 fmul_084_07 fmul_12_11 fmul_132_07 fmul_084_11
  fmul_12_08 fmul_12_06

subsection \<open>Strings, the scan and the selection\<close>

lemma takeWhile_before_separator:
  "takeWhile (\<lambda>c. c \<noteq> 0x2F) (xs @ 0x2F # zs) = takeWhile (\<lambda>c. c \<noteq> 0x2F) xs"
  by (induction xs) simp_all

lemma path_name_join [simp]: "path_name (path_join p rel) = path_name rel"
  by (simp add: path_name_def path_join_def takeWhile_before_separator)

lemma path_suffix_join [simp]: "path_suffix (path_join p rel) = path_suffix rel"
  by (simp add: path_suffix_def)

lemma py_strip_Nil_iff: "py_strip s = [] \<longleftrightarrow> (\<forall>c \<in> set s. py_isspace c)"
proof
  assume "py_strip s = []"
  then have a: "\<forall>c \<in> set (dropWhile py_isspace s). py_isspace c"
    by (simp add: py_strip_def dropWhile_eq_Nil_conv)
  have "dropWhile py_isspace s = []"
  proof (rule ccontr)
    assume ne: "dropWhile py_isspace s \<noteq> []"
    then have "\<not> py_isspace (hd (dropWhile py_isspace s))" by (rule hd_dropWhile)
    moreover have "hd (dropWhile py_isspace s) \<in> set (dropWhile py_isspace s)"
      using ne by simp
    ultimately show False using a by blast
  qed
  then show "\<forall>c \<in> set s. py_isspace c" by (simp add: dropWhile_eq_Nil_conv)
next
  assume "\<forall>c \<in> set s. py_isspace c"
  then show "py_strip s = []"
    by (auto simp: py_strip_def dropWhile_eq_Nil_conv dest: set_dropWhileD)
qed

lemma scan_file_Some:
  assumes "scan_file tk ul ppath e = Some info"
  shows "\<not> is_dir e \<and> \<not> startswith (path_name (rel_path e)) (ascii ''.'')
    \<and> (\<forall>pattern \<in> SKIP_PATTERNS. \<not> sublist pattern (rel_path e))
    \<and> py_lower ul (path_suffix (rel_path e)) \<in> CODE_EXTENSIONS
    \<and> read_text e = Some (content info)
    \<and> py_strip (content info) \<noteq> []
    \<and> count_tokens tk (content info) = Some (tokens info)
    \<and> tokens info \<le> 50000
    \<and> relative_path info = rel_path e
    \<and> path info = path_join ppath (rel_path e)
    \<and> language info = get_language ul (path_join ppath (rel_path e))
    \<and> relevance_score info = calculate_relevance_score ul info ppath"
proof -
  have 1: "\<not> (is_dir e \<or> startswith (path_name (rel_path e)) (ascii ''.''))"
  proof
    assume "is_dir e \<or> startswith (path_name (rel_path e)) (ascii ''.'')"
    then have "scan_file tk ul ppath e = None" by (auto simp add: scan_file_def Let_def)
    with assms show False by simp
  qed
  have 2: "\<not> (\<exists>pattern \<in> SKIP_PATTERNS. sublist pattern (rel_path e))"
  proof
    assume "\<exists>pattern \<in> SKIP_PATTERNS. sublist pattern (rel_path e)"
    then have "scan_file tk ul ppath e = None" by (simp add: scan_file_def Let_def)
    with assms show False by simp
  qed
  have 3: "py_lower ul (path_suffix (rel_path e)) \<in> CODE_EXTENSIONS"
  proof (rule ccontr)
    assume "py_lower ul (path_suffix (rel_path e)) \<notin> CODE_EXTENSIONS"
    then have "scan_file tk ul ppath e = None" by (simp add: scan_file_def Let_def)
    with assms show False by simp
  qed
  obtain body where 4: "read_text e = Some body"
    using assms 1 2 3 by (cases "read_text e") (simp_all add: scan_file_def Let_def)
  have 5: "py_strip body \<noteq> []"
  proof
    assume "py_strip body = []"
    with 1 2 3 4 have "scan_file tk ul ppath e = None" by (simp add: scan_file_def Let_def)
    with assms show False by simp
  qed
  obtain n where 6: "count_tokens tk body = Some n"
    using assms 1 2 3 4 5 by (cases "count_tokens tk body") (simp_all add: scan_file_def Let_def)
  have 7: "n \<le> 50000"
  proof (rule ccontr)
    assume "\<not> n \<le> 50000"
    with 1 2 3 4 5 6 have "scan_file tk ul ppath e = None" by (simp add: scan_file_def Let_def)
    with assms show False by simp
  qed
  obtain m where 8: "mtime e = Some m"
    using assms 1 2 3 4 5 6 7 by (cases "mtime e") (simp_all add: scan_file_def Let_def)
  define base where "base = \<lparr>path = path_join ppath (rel_path e), relative_path = rel_path e,
     content = body, tokens = n, size_chars = length body, modified = m,
     language = get_language ul (path_join ppath (rel_path e))\<rparr>"
  have 9: "info = file_base.extend base (file_info.fields (calculate_relevance_score ul base ppath))"
    using assms 1 2 3 4 5 6 7 8 by (simp add: scan_file_def Let_def base_def)
  have 10: "calculate_relevance_score ul info ppath = calculate_relevance_score ul base ppath"
    unfolding 9 by (simp add: calculate_relevance_score_def file_base.defs file_info.defs base_def)
  have 11: "content info = body" "tokens info = n" "relative_path info = rel_path e"
    "path info = path_join ppath (rel_path e)"
    "language info = get_language ul (path_join ppath (rel_path e))"
    "relevance_score info = calculate_relevance_score ul base ppath"
    unfolding 9 by (simp_all add: file_base.defs file_info.defs base_def)
  from 1 2 3 4 5 6 7 10 11 show ?thesis by simp
qed

lemma scan_loop_map_filter:
  "fst (scan_loop tk ul ppath es (acc, t)) = acc @ List.map_filter (scan_file tk ul ppath) es"
  by (induction es arbitrary: acc t) (auto split: option.splits)

lemma files_in_walk_order_eq:
  "files_in_walk_order fs tk ul dir =
     List.map_filter (scan_file tk ul (resolve fs dir)) (rglob fs (resolve fs dir))"
  by (simp add: files_in_walk_order_def scan_loop_map_filter)

lemma trim_take:
  "\<exists>n \<le> length cs. trim cs m (sel, used) =
      (sel @ take n cs, used + sum_list (map tokens (take n cs)))"
proof (induction cs arbitrary: sel used)
  case Nil
  show ?case by simp
next
  case (Cons c cs)
  show ?case
  proof (cases "used + tokens c \<le> m")
    case True
    from Cons.IH [of "sel @ [c]" "used + tokens c"]
    obtain n where n: "n \<le> length cs"
      "trim cs m (sel @ [c], used + tokens c) =
         ((sel @ [c]) @ take n cs, used + tokens c + sum_list (map tokens (take n cs)))"
      by blast
    have "Suc n \<le> length (c # cs)" using n(1) by simp
    moreover have "trim (c # cs) m (sel, used) =
        (sel @ take (Suc n) (c # cs), used + sum_list (map tokens (take (Suc n) (c # cs))))"
      using True n(2) by (simp add: add.assoc)
    ultimately show ?thesis by blast
  next
    case False
    have "trim (c # cs) m (sel, used) =
        (sel @ take 0 (c # cs), used + sum_list (map tokens (take 0 (c # cs))))"
      using False by simp
    then show ?thesis by blast
  qed
qed

lemma trim_budget:
  "used \<le> m \<Longrightarrow> snd (trim cs m (sel, used)) \<le> m"
  by (induction cs arbitrary: sel used) auto

lemma trim_sum:
  "snd (trim cs m (sel, sum_list (map tokens sel))) =
     sum_list (map tokens (fst (trim cs m (sel, sum_list (map tokens sel)))))"
proof -
  obtain n where
    "trim cs m (sel, sum_list (map tokens sel)) =
       (sel @ take n cs, sum_list (map tokens sel) + sum_list (map tokens (take n cs)))"
    using trim_take [of cs m sel "sum_list (map tokens sel)"] by blast
  then show ?thesis by simp
qed

lemma sort_reverse_stable:
  "filter (\<lambda>y. k y = v) (sort_reverse k xs) = filter (\<lambda>y. k y = v) xs"
  by (simp add: sort_reverse_def rev_filter [symmetric] sort_key_stable)

lemma sort_reverse_descending:
  "sorted_wrt (\<lambda>a b. k a \<ge> k b) (sort_reverse k xs)"
proof -
  have "sorted (map k (sort_key k (rev xs)))" by simp
  then have "sorted_wrt (\<lambda>a b. k a \<le> k b) (sort_key k (rev xs))"
    by (simp add: sorted_map)
  then show ?thesis
    by (simp add: sort_reverse_def sorted_wrt_rev)
qed

lemma mset_sort_reverse [simp]: "mset (sort_reverse k xs) = mset xs"
  by (simp add: sort_reverse_def)

lemma length_sort_reverse [simp]: "length (sort_reverse k xs) = length xs"
  by (simp add: sort_reverse_def)

lemma trim_prefix: "\<exists>n. fst (trim cs m ([], 0)) = take n cs"
  using trim_take [of cs m "[]" 0] by auto

lemma prefix_filter_take: "prefix (filter P (take n xs)) (filter P xs)"
proof -
  have "filter P xs = filter P (take n xs) @ filter P (drop n xs)"
    by (metis append_take_drop_id filter_append)
  then show ?thesis by (metis prefixI)
qed

lemma trim_append_accepted:
  "trim xs m (sel, used) = (sel @ xs, r) \<Longrightarrow>
   trim (xs @ ys) m (sel, used) = trim ys m (sel @ xs, r)"
proof (induction xs arbitrary: sel used)
  case Nil
  then show ?case by simp
next
  case (Cons x xs)
  show ?case
  proof (cases "used + tokens x \<le> m")
    case True
    with Cons.prems have "trim xs m (sel @ [x], used + tokens x) = ((sel @ [x]) @ xs, r)"
      by simp
    from Cons.IH [OF this] True show ?thesis by simp
  next
    case False
    with Cons.prems show ?thesis by simp
  qed
qed



lemma set_map_filter_Some:
  "y \<in> set (List.map_filter f xs) \<Longrightarrow> \<exists>x \<in> set xs. f x = Some y"
  by (auto simp: List.map_filter_def)

lemma selected_subset_walk:
  "set (files (scan_codebase fs tk ul dir max_tokens)) \<subseteq> set (files_in_walk_order fs tk ul dir)"
proof -
  let ?cs = "sort_reverse relevance_score (files_in_walk_order fs tk ul dir)"
  have f: "files (scan_codebase fs tk ul dir max_tokens) = fst (trim ?cs max_tokens ([], 0))"
    by (simp add: scan_codebase_def Let_def split: prod.splits)
  obtain n where n: "fst (trim ?cs max_tokens ([], 0)) = take n ?cs"
    using trim_prefix by blast
  have "set (take n ?cs) \<subseteq> set ?cs" by (rule set_take_subset)
  also have "set ?cs = set (files_in_walk_order fs tk ul dir)"
    by (simp add: sort_reverse_def)
  finally show ?thesis by (simp add: f n)
qed

subsection \<open>Evaluation on concrete inputs\<close>

text \<open>Rewrite rules that evaluate the string functions and the score on literals.\<close>

lemmas string_eval =
  ascii_def startswith_def endswith_def path_name_def path_suffix_def name_suffix_def
  py_lower_def ascii_lower_def sublist_code(3) prefix_code suffix_to_prefix

lemmas score_eval =
  calculate_relevance_score_def language_factor_def directory_factor_def size_factor_def
  filename_factor_def scaled_def dict_get_def language_weights_def get_language_def
  language_map_def

lemma scan_file_accept:
  assumes "\<not> is_dir e" "\<not> startswith (path_name (rel_path e)) (ascii ''.'')"
    and "\<not> (\<exists>pattern \<in> SKIP_PATTERNS. sublist pattern (rel_path e))"
    and "py_lower ul (path_suffix (rel_path e)) \<in> CODE_EXTENSIONS"
    and "read_text e = Some body" "py_strip body \<noteq> []"
    and "count_tokens tk body = Some n" "n \<le> 50000" "mtime e = Some m"
  shows "scan_file tk ul ppath e =
     Some \<lparr>path = path_join ppath (rel_path e), relative_path = rel_path e, content = body,
            tokens = n, size_chars = length body, modified = m,
            language = get_language ul (rel_path e),
            relevance_score =
              scaled (scaled (scaled
                (fmul (flit 1) (language_factor (get_language ul (rel_path e))))
                (directory_factor (rel_path e))) (size_factor n))
                (filename_factor ul (rel_path e))\<rparr>"
  using assms
  by (simp add: scan_file_def Let_def file_base.defs file_info.defs
        calculate_relevance_score_def get_language_def)

lemma mset_map_filter:
  "mset (List.map_filter f xs) = image_mset (the \<circ> f) (filter_mset (\<lambda>x. f x \<noteq> None) (mset xs))"
  by (simp add: List.map_filter_def)

lemma sort_reverse_unique:
  assumes "mset xs = mset ys" and "distinct (map k ys)" and "sorted (rev (map k ys))"
  shows "sort_reverse k xs = ys"
proof -
  have "set xs = set ys" using assms(1) by (rule mset_eq_setD)
  moreover have "inj_on k (set ys)" using assms(2) by (simp add: distinct_map)
  ultimately have inj: "inj_on k (set (rev xs))" by simp
  have "sort_key k (rev xs) = rev ys"
  proof (rule sort_key_inj_key_eq)
    show "mset (rev xs) = mset (rev ys)" using assms(1) by simp
    show "inj_on k (set (rev xs))" by (rule inj)
    show "sorted (map k (rev ys))" using assms(3) by (simp add: rev_map)
  qed
  then show ?thesis by (simp add: sort_reverse_def)
qed

lemma scan_file_directory: "is_dir e \<Longrightarrow> scan_file tk ul ppath e = None"
  by (simp add: scan_file_def Let_def)

lemma scan_file_dir_entry: "scan_file tk ul ppath (dir_entry rel) = None"
  by (simp add: scan_file_directory dir_entry_def)

lemma scan_file_file_entry:
  assumes "\<not> startswith (path_name (ascii rel)) (ascii ''.'')"
    and "\<not> (\<exists>pattern \<in> SKIP_PATTERNS. sublist pattern (ascii rel))"
    and "py_lower ul (path_suffix (ascii rel)) \<in> CODE_EXTENSIONS"
    and "py_strip c \<noteq> []" and "count_tokens tk c = Some n" and "n \<le> 50000"
  shows "scan_file tk ul ppath (file_entry rel c m) =
     Some \<lparr>path = path_join ppath (ascii rel), relative_path = ascii rel, content = c,
            tokens = n, size_chars = length c, modified = m,
            language = get_language ul (ascii rel),
            relevance_score =
              scaled (scaled (scaled
                (fmul (flit 1) (language_factor (get_language ul (ascii rel))))
                (directory_factor (ascii rel))) (size_factor n))
                (filename_factor ul (ascii rel))\<rparr>"
  using scan_file_accept [of "file_entry rel c m" ul c tk n m ppath] assms
  by (simp add: file_entry_def)

text \<open>The filters and the score at the paths of the concrete inputs.\<close>

lemma scenario_filters:
  "\<not> startswith (path_name (ascii ''src/app.py'')) (ascii ''.'')"
  "\<not> (\<exists>pattern \<in> SKIP_PATTERNS. sublist pattern (ascii ''src/app.py''))"
  "py_lower ul (path_suffix (ascii ''src/app.py'')) \<in> CODE_EXTENSIONS"
  "\<not> startswith (path_name (ascii ''tests/test_app.py'')) (ascii ''.'')"
  "\<not> (\<exists>pattern \<in> SKIP_PATTERNS. sublist pattern (ascii ''tests/test_app.py''))"
  "py_lower ul (path_suffix (ascii ''tests/test_app.py'')) \<in> CODE_EXTENSIONS"
  "\<not> startswith (path_name (ascii ''README.md'')) (ascii ''.'')"
  "\<not> (\<exists>pattern \<in> SKIP_PATTERNS. sublist pattern (ascii ''README.md''))"
  "py_lower ul (path_suffix (ascii ''README.md'')) \<in> CODE_EXTENSIONS"
  by (simp_all add: SKIP_PATTERNS_def CODE_EXTENSIONS_def string_eval)

lemma scenario_languages:
  "get_language ul (ascii ''src/app.py'') = ascii ''python''"
  "get_language ul (ascii ''tests/test_app.py'') = ascii ''python''"
  "get_language ul (ascii ''README.md'') = ascii ''markdown''"
  by (simp_all add: get_language_def dict_get_def language_map_def string_eval)

lemma scenario_factors:
  "language_factor (ascii ''python'') = flit (12 / 10)"
  "language_factor (ascii ''markdown'') = flit 1"
  "directory_factor (ascii ''src/app.py'') = Some (flit (13 / 10))"
  "directory_factor (ascii ''tests/test_app.py'') = Some (flit (7 / 10))"
  "directory_factor (ascii ''README.md'') = None"
  "filename_factor ul (ascii ''src/app.py'') = Some (flit (15 / 10))"
  "filename_factor ul (ascii ''tests/test_app.py'') = Some (flit (7 / 10))"
  "filename_factor ul (ascii ''README.md'') = None"
  "size_factor 800 = None" "size_factor 200 = None"
  by (simp_all add: score_eval string_eval)

lemma scenario_scores:
  "scaled (scaled (scaled (fmul (flit 1) (language_factor (ascii ''python'')))
       (directory_factor (ascii ''src/app.py''))) (size_factor 800))
       (filename_factor ul (ascii ''src/app.py'')) = flit (234 / 100)"
  "scaled (scaled (scaled (fmul (flit 1) (language_factor (ascii ''python'')))
       (directory_factor (ascii ''tests/test_app.py''))) (size_factor 800))
       (filename_factor ul (ascii ''tests/test_app.py'')) = flit (588 / 1000)"
  "scaled (scaled (scaled (fmul (flit 1) (language_factor (ascii ''markdown'')))
       (directory_factor (ascii ''README.md''))) (size_factor 200))
       (filename_factor ul (ascii ''README.md'')) = 1"
  by (simp_all add: scenario_factors scaled_def float_eval)

lemma scan_file_app_py:
  assumes "count_tokens tk c = Some 800" and "py_strip c \<noteq> []"
  shows "scan_file tk ul ppath (file_entry ''src/app.py'' c m) =
     Some \<lparr>path = path_join ppath (ascii ''src/app.py''), relative_path = ascii ''src/app.py'',
            content = c, tokens = 800, size_chars = length c, modified = m,
            language = ascii ''python'', relevance_score = flit (234 / 100)\<rparr>"
  using scan_file_file_entry [OF scenario_filters(1-3) assms(2) assms(1), of ul ppath m]
  by (simp add: scenario_languages scenario_scores)

lemma scan_file_test_app_py:
  assumes "count_tokens tk c = Some 800" and "py_strip c \<noteq> []"
  shows "scan_file tk ul ppath (file_entry ''tests/test_app.py'' c m) =
     Some \<lparr>path = path_join ppath (ascii ''tests/test_app.py''),
            relative_path = ascii ''tests/test_app.py'',
            content = c, tokens = 800, size_chars = length c, modified = m,
            language = ascii ''python'', relevance_score = flit (588 / 1000)\<rparr>"
  using scan_file_file_entry [OF scenario_filters(4-6) assms(2) assms(1), of ul ppath m]
  by (simp add: scenario_languages scenario_scores)

lemma scan_file_readme_md:
  assumes "count_tokens tk c = Some 200" and "py_strip c \<noteq> []"
  shows "scan_file tk ul ppath (file_entry ''README.md'' c m) =
     Some \<lparr>path = path_join ppath (ascii ''README.md''), relative_path = ascii ''README.md'',
            content = c, tokens = 200, size_chars = length c, modified = m,
            language = ascii ''markdown'', relevance_score = 1\<rparr>"
  using scan_file_file_entry [OF scenario_filters(7-9) assms(2) assms(1), of ul ppath m]
  by (simp add: scenario_languages scenario_scores)

lemma scenario_scan_general:
  assumes walk: "mset (rglob fs (resolve fs dir)) =
      {#d1, d2, file_entry ''src/app.py'' c1 m1,
        file_entry ''tests/test_app.py'' c2 m2, file_entry ''README.md'' c3 m3#}"
    and dirs: "is_dir d1" "is_dir d2"
    and toks: "count_tokens tk c1 = Some 800" "count_tokens tk c2 = Some 800"
      "count_tokens tk c3 = Some 200"
    and nonblank: "py_strip c1 \<noteq> []" "py_strip c2 \<noteq> []" "py_strip c3 \<noteq> []"
  shows "scan_codebase fs tk ul dir 1000 =
     \<lparr>files =
        [\<lparr>path = path_join (resolve fs dir) (ascii ''src/app.py''),
           relative_path = ascii ''src/app.py'',
           content = c1, tokens = 800, size_chars = length c1, modified = m1,
           language = ascii ''python'', relevance_score = flit (234 / 100)\<rparr>,
         \<lparr>path = path_join (resolve fs dir) (ascii ''README.md''),
           relative_path = ascii ''README.md'',
           content = c3, tokens = 200, size_chars = length c3, modified = m3,
           language = ascii ''markdown'', relevance_score = 1\<rparr>],
      total_tokens = 1000, total_files = 2, scanned_files = 3,
      project_path = resolve fs dir\<rparr>"
proof -
  let ?p = "resolve fs dir"
  define app where "app = \<lparr>path = path_join ?p (ascii ''src/app.py''),
     relative_path = ascii ''src/app.py'',
     content = c1, tokens = 800, size_chars = length c1, modified = m1,
     language = ascii ''python'', relevance_score = flit (234 / 100)\<rparr>"
  define test where "test = \<lparr>path = path_join ?p (ascii ''tests/test_app.py''),
     relative_path = ascii ''tests/test_app.py'', content = c2, tokens = 800,
     size_chars = length c2, modified = m2, language = ascii ''python'',
     relevance_score = flit (588 / 1000)\<rparr>"
  define readme where "readme = \<lparr>path = path_join ?p (ascii ''README.md''),
     relative_path = ascii ''README.md'', content = c3, tokens = 200, size_chars = length c3,
     modified = m3, language = ascii ''markdown'', relevance_score = 1\<rparr>"
  have sf: "scan_file tk ul ?p (file_entry ''src/app.py'' c1 m1) = Some app"
    "scan_file tk ul ?p (file_entry ''tests/test_app.py'' c2 m2) = Some test"
    "scan_file tk ul ?p (file_entry ''README.md'' c3 m3) = Some readme"
    unfolding app_def test_def readme_def
    by (rule scan_file_app_py scan_file_test_app_py scan_file_readme_md; rule toks nonblank)+
  have sd: "scan_file tk ul ?p d1 = None" "scan_file tk ul ?p d2 = None"
    using dirs by (simp_all add: scan_file_directory)
  have m: "mset (files_in_walk_order fs tk ul dir) = mset [app, readme, test]"
    by (simp add: files_in_walk_order_eq mset_map_filter walk sf sd)
  have fields: "relevance_score app = 658651445502935 / 281474976710656"
    "relevance_score readme = 1"
    "relevance_score test = 5296233161787703 / 9007199254740992" "tokens app = 800"
    "tokens readme = 200" "tokens test = 800"
    by (simp_all add: app_def test_def readme_def float_eval)
  have s: "sort_reverse relevance_score (files_in_walk_order fs tk ul dir) = [app, readme, test]"
    using m by (rule sort_reverse_unique) (simp_all add: fields)
  have t: "trim [app, readme, test] 1000 ([], 0) = ([app, readme], 1000)"
    by (simp add: fields)
  show ?thesis
    unfolding app_def [symmetric] readme_def [symmetric]
    by (simp add: scan_codebase_def Let_def s t del: trim.simps)
qed

lemma scenario_texts:
  "count_tokens None app_py_text = Some 800" "count_tokens None test_app_py_text = Some 800"
  "count_tokens None readme_md_text = Some 200"
  "py_strip app_py_text \<noteq> []" "py_strip test_app_py_text \<noteq> []"
  "py_strip readme_md_text \<noteq> []"
  by (simp_all add: count_tokens_def app_py_text_def test_app_py_text_def readme_md_text_def
        py_strip_Nil_iff py_isspace_def)

lemma scenario_fs_walk:
  "mset (rglob scenario_fs (resolve scenario_fs (ascii ''/proj''))) =
      {#dir_entry ''src'', dir_entry ''tests'', file_entry ''src/app.py'' app_py_text 0,
        file_entry ''tests/test_app.py'' test_app_py_text 0,
        file_entry ''README.md'' readme_md_text 0#}"
  "is_dir (dir_entry ''src'')" "is_dir (dir_entry ''tests'')"
  by (simp_all add: scenario_fs_def tree_fs_def scenario_walk_def dir_entry_def)

lemma path_join_proj: "path_join (ascii ''/proj'') (ascii rel) = ascii (''/proj/'' @ rel)"
  by (simp add: path_join_def ascii_def)

lemma scenario_scan:
  "scan_codebase scenario_fs None ul (ascii ''/proj'') 1000 =
     \<lparr>files =
        [\<lparr>path = ascii ''/proj/src/app.py'', relative_path = ascii ''src/app.py'',
           content = app_py_text, tokens = 800, size_chars = 3200, modified = 0,
           language = ascii ''python'', relevance_score = flit (234 / 100)\<rparr>,
         \<lparr>path = ascii ''/proj/README.md'', relative_path = ascii ''README.md'',
           content = readme_md_text, tokens = 200, size_chars = 800, modified = 0,
           language = ascii ''markdown'', relevance_score = 1\<rparr>],
      total_tokens = 1000, total_files = 2, scanned_files = 3,
      project_path = ascii ''/proj''\<rparr>"
proof -
  have r: "resolve scenario_fs (ascii ''/proj'') = ascii ''/proj''"
    by (simp add: scenario_fs_def tree_fs_def)
  have l: "length app_py_text = 3200" "length readme_md_text = 800"
    by (simp_all add: app_py_text_def readme_md_text_def)
  from scenario_scan_general [OF scenario_fs_walk scenario_texts, of ul]
  show ?thesis by (simp add: r l path_join_proj)
qed

lemma scan_single_file:
  assumes "rglob fs (resolve fs dir) = skipped @ [e]"
    and "\<forall>d \<in> set skipped. scan_file tk ul (resolve fs dir) d = None"
    and "scan_file tk ul (resolve fs dir) e = Some info"
    and "tokens info \<le> max_tokens"
  shows "scan_codebase fs tk ul dir max_tokens =
     \<lparr>files = [info], total_tokens = tokens info, total_files = 1, scanned_files = 1,
      project_path = resolve fs dir\<rparr>"
proof -
  have "List.map_filter (scan_file tk ul (resolve fs dir)) skipped = []"
    using assms(2) by (induction skipped) (simp_all add: List.map_filter_simps)
  then have "files_in_walk_order fs tk ul dir = [info]"
    by (simp add: files_in_walk_order_eq assms(1,3) List.map_filter_def)
  then show ?thesis
    using assms(4) by (simp add: scan_codebase_def Let_def sort_reverse_def)
qed

lemma small_text:
  "count_tokens None (ascii ''x = 1'') = Some 1" "py_strip (ascii ''x = 1'') \<noteq> []"
  by (simp_all add: count_tokens_def py_strip_Nil_iff py_isspace_def ascii_def)

lemma small_file_filters:
  "\<not> startswith (path_name (ascii ''SETUP.PY'')) (ascii ''.'')"
  "\<not> (\<exists>pattern \<in> SKIP_PATTERNS. sublist pattern (ascii ''SETUP.PY''))"
  "py_lower ul (path_suffix (ascii ''SETUP.PY'')) \<in> CODE_EXTENSIONS"
  "\<not> startswith (path_name (ascii ''.hidden/util.py'')) (ascii ''.'')"
  "\<not> (\<exists>pattern \<in> SKIP_PATTERNS. sublist pattern (ascii ''.hidden/util.py''))"
  "py_lower ul (path_suffix (ascii ''.hidden/util.py'')) \<in> CODE_EXTENSIONS"
  "\<not> startswith (path_name (ascii ''test_b.py'')) (ascii ''.'')"
  "\<not> (\<exists>pattern \<in> SKIP_PATTERNS. sublist pattern (ascii ''test_b.py''))"
  "py_lower ul (path_suffix (ascii ''test_b.py'')) \<in> CODE_EXTENSIONS"
  "\<not> startswith (path_name (ascii ''tests/a.py'')) (ascii ''.'')"
  "\<not> (\<exists>pattern \<in> SKIP_PATTERNS. sublist pattern (ascii ''tests/a.py''))"
  "py_lower ul (path_suffix (ascii ''tests/a.py'')) \<in> CODE_EXTENSIONS"
  "\<not> startswith (path_name (ascii ''test_c.py'')) (ascii ''.'')"
  "\<not> (\<exists>pattern \<in> SKIP_PATTERNS. sublist pattern (ascii ''test_c.py''))"
  "py_lower ul (path_suffix (ascii ''test_c.py'')) \<in> CODE_EXTENSIONS"
  by (simp_all add: SKIP_PATTERNS_def CODE_EXTENSIONS_def string_eval)

lemma small_file_languages:
  "get_language ul (ascii ''SETUP.PY'') = ascii ''python''"
  "get_language ul (ascii ''.hidden/util.py'') = ascii ''python''"
  "get_language ul (ascii ''test_b.py'') = ascii ''python''"
  "get_language ul (ascii ''tests/a.py'') = ascii ''python''"
  "get_language ul (ascii ''test_c.py'') = ascii ''python''"
  "get_language ul (ascii ''big.py'') = ascii ''python''"
  by (simp_all add: get_language_def dict_get_def language_map_def string_eval)

lemma small_file_factors:
  "directory_factor (ascii ''SETUP.PY'') = None"
  "directory_factor (ascii ''.hidden/util.py'') = None"
  "directory_factor (ascii ''test_b.py'') = None"
  "directory_factor (ascii ''tests/a.py'') = Some (flit (7 / 10))"
  "directory_factor (ascii ''test_c.py'') = None"
  "directory_factor (ascii ''big.py'') = None"
  "filename_factor ul (ascii ''SETUP.PY'') = None"
  "filename_factor ul (ascii ''.hidden/util.py'') = None"
  "filename_factor ul (ascii ''test_b.py'') = Some (flit (7 / 10))"
  "filename_factor ul (ascii ''tests/a.py'') = None"
  "filename_factor ul (ascii ''test_c.py'') = Some (flit (7 / 10))"
  "filename_factor ul (ascii ''big.py'') = None"
  "size_factor 1 = Some (flit (11 / 10))"
  by (simp_all add: score_eval string_eval)

lemma small_file_scores:
  "scaled (scaled (scaled (fmul (flit 1) (language_factor (ascii ''python'')))
       (directory_factor (ascii ''SETUP.PY''))) (size_factor 1))
       (filename_factor ul (ascii ''SETUP.PY'')) = flit (132 / 100)"
  "scaled (scaled (scaled (fmul (flit 1) (language_factor (ascii ''python'')))
       (directory_factor (ascii ''.hidden/util.py''))) (size_factor 1))
       (filename_factor ul (ascii ''.hidden/util.py'')) = flit (132 / 100)"
  "scaled (scaled (scaled (fmul (flit 1) (language_factor (ascii ''python'')))
       (directory_factor (ascii ''test_b.py''))) (size_factor 1))
       (filename_factor ul (ascii ''test_b.py'')) = 2080663027845169 / 2251799813685248"
  "scaled (scaled (scaled (fmul (flit 1) (language_factor (ascii ''python'')))
       (directory_factor (ascii ''tests/a.py''))) (size_factor 1))
       (filename_factor ul (ascii ''tests/a.py'')) = flit (924 / 1000)"
  "scaled (scaled (scaled (fmul (flit 1) (language_factor (ascii ''python'')))
       (directory_factor (ascii ''test_c.py''))) (size_factor 1))
       (filename_factor ul (ascii ''test_c.py'')) = 2080663027845169 / 2251799813685248"
  by (simp_all add: small_file_factors scenario_factors scaled_def float_eval)

lemma scan_small_file:
  "scan_file None ul (ascii ''/proj'') (file_entry ''SETUP.PY'' (ascii ''x = 1'') 0) =
     Some \<lparr>path = ascii ''/proj/SETUP.PY'', relative_path = ascii ''SETUP.PY'',
       content = ascii ''x = 1'', tokens = 1, size_chars = 5, modified = 0,
       language = ascii ''python'', relevance_score = flit (132 / 100)\<rparr>"
  "scan_file None ul (ascii ''/proj'') (file_entry ''.hidden/util.py'' (ascii ''x = 1'') 0) =
     Some \<lparr>path = ascii ''/proj/.hidden/util.py'', relative_path = ascii ''.hidden/util.py'',
       content = ascii ''x = 1'', tokens = 1, size_chars = 5, modified = 0,
       language = ascii ''python'', relevance_score = flit (132 / 100)\<rparr>"
  "scan_file None ul (ascii ''/proj'') (file_entry ''test_b.py'' (ascii ''x = 1'') 0) =
     Some \<lparr>path = ascii ''/proj/test_b.py'', relative_path = ascii ''test_b.py'',
       content = ascii ''x = 1'', tokens = 1, size_chars = 5, modified = 0,
       language = ascii ''python'',
       relevance_score = 2080663027845169 / 2251799813685248\<rparr>"
  "scan_file None ul (ascii ''/proj'') (file_entry ''tests/a.py'' (ascii ''x = 1'') 0) =
     Some \<lparr>path = ascii ''/proj/tests/a.py'', relative_path = ascii ''tests/a.py'',
       content = ascii ''x = 1'', tokens = 1, size_chars = 5, modified = 0,
       language = ascii ''python'', relevance_score = flit (924 / 1000)\<rparr>"
  "scan_file None ul (ascii ''/proj'') (file_entry ''test_c.py'' (ascii ''x = 1'') 0) =
     Some \<lparr>path = ascii ''/proj/test_c.py'', relative_path = ascii ''test_c.py'',
       content = ascii ''x = 1'', tokens = 1, size_chars = 5, modified = 0,
       language = ascii ''python'',
       relevance_score = 2080663027845169 / 2251799813685248\<rparr>"
proof -
  have l: "length (ascii ''x = 1'') = 5" by (simp add: ascii_def)
  note r = small_file_languages small_file_scores path_join_proj l
  show "scan_file None ul (ascii ''/proj'') (file_entry ''SETUP.PY'' (ascii ''x = 1'') 0) =
     Some \<lparr>path = ascii ''/proj/SETUP.PY'', relative_path = ascii ''SETUP.PY'',
       content = ascii ''x = 1'', tokens = 1, size_chars = 5, modified = 0,
       language = ascii ''python'', relevance_score = flit (132 / 100)\<rparr>"
    using scan_file_file_entry [OF small_file_filters(1-3) small_text(2) small_text(1),
        of ul "ascii ''/proj''" 0]
    by (simp add: r)
  show "scan_file None ul (ascii ''/proj'') (file_entry ''.hidden/util.py'' (ascii ''x = 1'') 0) =
     Some \<lparr>path = ascii ''/proj/.hidden/util.py'', relative_path = ascii ''.hidden/util.py'',
       content = ascii ''x = 1'', tokens = 1, size_chars = 5, modified = 0,
       language = ascii ''python'', relevance_score = flit (132 / 100)\<rparr>"
    using scan_file_file_entry [OF small_file_filters(4-6) small_text(2) small_text(1),
        of ul "ascii ''/proj''" 0]
    by (simp add: r)
  show "scan_file None ul (ascii ''/proj'') (file_entry ''test_b.py'' (ascii ''x = 1'') 0) =
     Some \<lparr>path = ascii ''/proj/test_b.py'', relative_path = ascii ''test_b.py'',
       content = ascii ''x = 1'', tokens = 1, size_chars = 5, modified = 0,
       language = ascii ''python'',
       relevance_score = 2080663027845169 / 2251799813685248\<rparr>"
    using scan_file_file_entry [OF small_file_filters(7-9) small_text(2) small_text(1),
        of ul "ascii ''/proj''" 0]
    by (simp add: r)
  show "scan_file None ul (ascii ''/proj'') (file_entry ''tests/a.py'' (ascii ''x = 1'') 0) =
     Some \<lparr>path = ascii ''/proj/tests/a.py'', relative_path = ascii ''tests/a.py'',
       content = ascii ''x = 1'', tokens = 1, size_chars = 5, modified = 0,
       language = ascii ''python'', relevance_score = flit (924 / 1000)\<rparr>"
    using scan_file_file_entry [OF small_file_filters(10-12) small_text(2) small_text(1),
        of ul "ascii ''/proj''" 0]
    by (simp add: r)
  show "scan_file None ul (ascii ''/proj'') (file_entry ''test_c.py'' (ascii ''x = 1'') 0) =
     Some \<lparr>path = ascii ''/proj/test_c.py'', relative_path = ascii ''test_c.py'',
       content = ascii ''x = 1'', tokens = 1, size_chars = 5, modified = 0,
       language = ascii ''python'',
       relevance_score = 2080663027845169 / 2251799813685248\<rparr>"
    using scan_file_file_entry [OF small_file_filters(13-15) small_text(2) small_text(1),
        of ul "ascii ''/proj''" 0]
    by (simp add: r)
qed

lemma loaded_session_fields:
  "current_project_path loaded_session = Some (ascii ''/proj'')"
  "map_option total_tokens (current_codebase_data loaded_session) = Some 1000"
  "current_codebase_context loaded_session \<noteq> None"
proof -
  have "path_exists scenario_fs (ascii ''/proj'')" by (simp add: scenario_fs_def tree_fs_def)
  then show "current_project_path loaded_session = Some (ascii ''/proj'')"
    "map_option total_tokens (current_codebase_data loaded_session) = Some 1000"
    "current_codebase_context loaded_session \<noteq> None"
    by (simp_all add: loaded_session_def handle_load_codebase_def Let_def scenario_scan)
qed

lemma capitals_scan:
  "files (scan_codebase capitals_fs None ul (ascii ''/proj'') 900000) =
     [\<lparr>path = ascii ''/proj/SETUP.PY'', relative_path = ascii ''SETUP.PY'',
       content = ascii ''x = 1'', tokens = 1, size_chars = 5, modified = 0,
       language = ascii ''python'', relevance_score = flit (132 / 100)\<rparr>]"
proof -
  let ?info = "\<lparr>path = ascii ''/proj/SETUP.PY'', relative_path = ascii ''SETUP.PY'',
       content = ascii ''x = 1'', tokens = 1, size_chars = 5, modified = 0,
       language = ascii ''python'', relevance_score = flit (132 / 100)\<rparr>"
  have sf: "scan_file None ul (resolve capitals_fs (ascii ''/proj''))
      (file_entry ''SETUP.PY'' (ascii ''x = 1'') 0) = Some ?info"
    by (simp add: capitals_fs_def tree_fs_def scan_small_file)
  have w: "rglob capitals_fs (resolve capitals_fs (ascii ''/proj''))
      = [] @ [file_entry ''SETUP.PY'' (ascii ''x = 1'') 0]"
    by (simp add: capitals_fs_def tree_fs_def)
  have sk: "\<forall>d \<in> set []. scan_file None ul (resolve capitals_fs (ascii ''/proj'')) d = None"
    by simp
  have "tokens ?info \<le> 900000" by simp
  from scan_single_file [OF w sk sf this] show ?thesis by simp
qed

lemma hidden_dir_scan:
  "files (scan_codebase hidden_dir_fs None ul (ascii ''/proj'') 900000) =
     [\<lparr>path = ascii ''/proj/.hidden/util.py'', relative_path = ascii ''.hidden/util.py'',
       content = ascii ''x = 1'', tokens = 1, size_chars = 5, modified = 0,
       language = ascii ''python'', relevance_score = flit (132 / 100)\<rparr>]"
proof -
  let ?info = "\<lparr>path = ascii ''/proj/.hidden/util.py'', relative_path = ascii ''.hidden/util.py'',
       content = ascii ''x = 1'', tokens = 1, size_chars = 5, modified = 0,
       language = ascii ''python'', relevance_score = flit (132 / 100)\<rparr>"
  have sf: "scan_file None ul (resolve hidden_dir_fs (ascii ''/proj''))
      (file_entry ''.hidden/util.py'' (ascii ''x = 1'') 0) = Some ?info"
    by (simp add: hidden_dir_fs_def tree_fs_def scan_small_file)
  have w: "rglob hidden_dir_fs (resolve hidden_dir_fs (ascii ''/proj''))
      = [dir_entry ''.hidden''] @ [file_entry ''.hidden/util.py'' (ascii ''x = 1'') 0]"
    by (simp add: hidden_dir_fs_def tree_fs_def)
  have sk: "\<forall>d \<in> set [dir_entry ''.hidden''].
      scan_file None ul (resolve hidden_dir_fs (ascii ''/proj'')) d = None"
    by (simp add: scan_file_dir_entry)
  have "tokens ?info \<le> 900000" by simp
  from scan_single_file [OF w sk sf this] show ?thesis by simp
qed

text \<open>The three files of \<open>ties_fs\<close>: the walk meets them as \<open>test_b.py\<close>, \<open>tests/a.py\<close>,
  \<open>test_c.py\<close>; the sort puts \<open>tests/a.py\<close> first, because its score is the larger float,
  and keeps the other two, whose scores are the same float, in the order of the walk.\<close>

lemma score_924_order: "(2080663027845169 / 2251799813685248 :: rat) < flit (924 / 1000)"
  by (simp add: float_eval)

lemma ties_scan:
  "map relative_path (files_in_walk_order ties_fs None ul (ascii ''/proj''))
     = [ascii ''test_b.py'', ascii ''tests/a.py'', ascii ''test_c.py'']"
  "map relevance_score (files_in_walk_order ties_fs None ul (ascii ''/proj''))
     = [2080663027845169 / 2251799813685248, flit (924 / 1000),
        2080663027845169 / 2251799813685248]"
  "map relative_path (files (scan_codebase ties_fs None ul (ascii ''/proj'') 900000))
     = [ascii ''tests/a.py'', ascii ''test_b.py'', ascii ''test_c.py'']"
  "map relevance_score (files (scan_codebase ties_fs None ul (ascii ''/proj'') 900000))
     = [flit (924 / 1000), 2080663027845169 / 2251799813685248,
        2080663027845169 / 2251799813685248]"
proof -
  define a where "a =
     \<lparr>path = ascii ''/proj/tests/a.py'', relative_path = ascii ''tests/a.py'',
       content = ascii ''x = 1'', tokens = 1, size_chars = 5, modified = 0,
       language = ascii ''python'', relevance_score = flit (924 / 1000)\<rparr>"
  define b where "b =
     \<lparr>path = ascii ''/proj/test_b.py'', relative_path = ascii ''test_b.py'',
       content = ascii ''x = 1'', tokens = 1, size_chars = 5, modified = 0,
       language = ascii ''python'',
       relevance_score = 2080663027845169 / 2251799813685248\<rparr>"
  define c where "c =
     \<lparr>path = ascii ''/proj/test_c.py'', relative_path = ascii ''test_c.py'',
       content = ascii ''x = 1'', tokens = 1, size_chars = 5, modified = 0,
       language = ascii ''python'',
       relevance_score = 2080663027845169 / 2251799813685248\<rparr>"
  have w: "files_in_walk_order ties_fs None ul (ascii ''/proj'') = [b, a, c]"
    by (simp add: files_in_walk_order_eq ties_fs_def tree_fs_def List.map_filter_simps
          scan_small_file scan_file_dir_entry a_def b_def c_def)
  have k: "relevance_score a = flit (924 / 1000)"
    "relevance_score b = 2080663027845169 / 2251799813685248"
    "relevance_score c = 2080663027845169 / 2251799813685248"
    "tokens a = 1" "tokens b = 1" "tokens c = 1"
    "relative_path a = ascii ''tests/a.py''" "relative_path b = ascii ''test_b.py''"
    "relative_path c = ascii ''test_c.py''"
    by (simp_all add: a_def b_def c_def)
  have s: "sort_reverse relevance_score [b, a, c] = [a, b, c]"
    using score_924_order by (simp add: sort_reverse_def k)
  have t: "trim [a, b, c] 900000 ([], 0) = ([a, b, c], 3)"
    by (simp add: k)
  have f: "files (scan_codebase ties_fs None ul (ascii ''/proj'') 900000) = [a, b, c]"
    by (simp add: scan_codebase_def Let_def w s t del: trim.simps)
  show "map relative_path (files_in_walk_order ties_fs None ul (ascii ''/proj''))
     = [ascii ''test_b.py'', ascii ''tests/a.py'', ascii ''test_c.py'']"
  "map relevance_score (files_in_walk_order ties_fs None ul (ascii ''/proj''))
     = [2080663027845169 / 2251799813685248, flit (924 / 1000),
        2080663027845169 / 2251799813685248]"
  "map relative_path (files (scan_codebase ties_fs None ul (ascii ''/proj'') 900000))
     = [ascii ''tests/a.py'', ascii ''test_b.py'', ascii ''test_c.py'']"
  "map relevance_score (files (scan_codebase ties_fs None ul (ascii ''/proj'') 900000))
     = [flit (924 / 1000), 2080663027845169 / 2251799813685248,
        2080663027845169 / 2251799813685248]"
    by (simp_all add: f w k)
qed

subsection \<open>The serialized document\<close>





lemma sublist_middle: "sublist x (a @ x @ b)"
  by (rule sublist_appendI)




section \<open>Token counting: properties\<close>

text \<open>
  C7 (as the code has it). Without tiktoken, \<open>count_tokens\<close> returns the floor of a
  quarter of the number of characters, \<open>len(text) // 4\<close>: the one integer \<open>n\<close> with
  \<open>4 n \<le> len(text) < 4 n + 4\<close>; it is never negative.
\<close>

theorem count_tokens_fallback_floor:
  "\<exists>n. count_tokens None text = Some n \<and> 0 \<le> n
     \<and> 4 * n \<le> int (length text) \<and> int (length text) < 4 * n + 4"
  by (simp add: count_tokens_def) presburger

text \<open>
  C7 (as the specification states it) fails: on the three characters \<open>abc\<close> (three bytes)
  the ceiling of 3 / 4 is 1 and the code returns 0.
\<close>

theorem count_tokens_ceiling_counterexample:
  "count_tokens None (ascii ''abc'') = Some 0 \<and> spec_fallback_estimate (ascii ''abc'') = 1"
  by (simp add: count_tokens_def spec_fallback_estimate_def ascii_def ceiling_eq_iff)

section \<open>The token budget\<close>

text \<open>
  C1. For every file system, tokenizer and directory, and every budget
  \<open>max_tokens \<ge> 0\<close>, the \<open>total_tokens\<close> of the result of \<open>scan_codebase\<close> is the sum
  of \<open>tokens\<close> over the selected \<open>files\<close> and is at most \<open>max_tokens\<close>.
\<close>

theorem scan_codebase_budget:
  assumes "0 \<le> max_tokens"
  shows "total_tokens (scan_codebase fs tk ul dir max_tokens)
           = sum_list (map tokens (files (scan_codebase fs tk ul dir max_tokens)))
       \<and> total_tokens (scan_codebase fs tk ul dir max_tokens) \<le> max_tokens"
proof -
  let ?cs = "sort_reverse relevance_score (files_in_walk_order fs tk ul dir)"
  have f: "files (scan_codebase fs tk ul dir max_tokens) = fst (trim ?cs max_tokens ([], 0))"
    by (simp add: scan_codebase_def Let_def split: prod.splits)
  have t: "total_tokens (scan_codebase fs tk ul dir max_tokens)
      = snd (trim ?cs max_tokens ([], 0))"
    by (simp add: scan_codebase_def Let_def split: prod.splits)
  have "snd (trim ?cs max_tokens ([], 0))
      = sum_list (map tokens (fst (trim ?cs max_tokens ([], 0))))"
    using trim_sum [of ?cs max_tokens "[]"] by simp
  moreover have "snd (trim ?cs max_tokens ([], 0)) \<le> max_tokens"
    using assms by (rule trim_budget)
  ultimately show ?thesis by (simp add: f t)
qed

text \<open>The budget theorem at the scenario of three files with a budget of 1000, where the
  selection uses the budget up exactly.\<close>

theorem scan_codebase_budget_witness:
  "\<forall>ul. (0::int) \<le> 1000
   \<and> total_tokens (scan_codebase scenario_fs None ul (ascii ''/proj'') 1000)
        = sum_list (map tokens (files (scan_codebase scenario_fs None ul (ascii ''/proj'') 1000)))
   \<and> total_tokens (scan_codebase scenario_fs None ul (ascii ''/proj'') 1000) \<le> 1000
   \<and> total_tokens (scan_codebase scenario_fs None ul (ascii ''/proj'') 1000) = 1000"
proof
  fix ul :: "pystr \<Rightarrow> pystr"
  have h: "(0::int) \<le> 1000" by simp
  from scan_codebase_budget [OF h, of scenario_fs None ul "ascii ''/proj''"] h
  show "(0::int) \<le> 1000
   \<and> total_tokens (scan_codebase scenario_fs None ul (ascii ''/proj'') 1000)
        = sum_list (map tokens (files (scan_codebase scenario_fs None ul (ascii ''/proj'') 1000)))
   \<and> total_tokens (scan_codebase scenario_fs None ul (ascii ''/proj'') 1000) \<le> 1000
   \<and> total_tokens (scan_codebase scenario_fs None ul (ascii ''/proj'') 1000) = 1000"
    by (simp add: scenario_scan)
qed

text \<open>
  C2. Greedy cut. Let \<open>cs\<close> be any candidate list and \<open>N\<close> a position in it. If the second
  loop accepts the \<open>N\<close> candidates before position \<open>N\<close>, ending with the running total
  \<open>running_total\<close>, and \<open>running_total + tokens (cs ! N)\<close> exceeds \<open>max_tokens\<close>, then the
  selection is exactly these first \<open>N\<close> candidates: position \<open>N\<close> and every later position is
  excluded, whatever the later candidates' token counts are.
\<close>

theorem greedy_cut:
  assumes "N < length cs"
    and "trim (take N cs) max_tokens ([], 0) = (take N cs, running_total)"
    and "running_total + tokens (cs ! N) > max_tokens"
  shows "trim cs max_tokens ([], 0) = (take N cs, running_total)"
proof -
  have "cs = take N cs @ cs ! N # drop (Suc N) cs"
    using assms(1) by (rule id_take_nth_drop)
  then have "trim cs max_tokens ([], 0)
      = trim (take N cs @ cs ! N # drop (Suc N) cs) max_tokens ([], 0)"
    by simp
  also have "\<dots> = trim (cs ! N # drop (Suc N) cs) max_tokens ([] @ take N cs, running_total)"
    by (rule trim_append_accepted) (simp add: assms(2))
  also have "\<dots> = (take N cs, running_total)"
    using assms(3) by simp
  finally show ?thesis .
qed

text \<open>The greedy cut at three candidates of 800, 800 and 200 tokens with a budget of 1000:
  the second is rejected after the first, and the third, which would fit, is excluded
  with it.\<close>

theorem greedy_cut_witness:
  "(1::nat) < length greedy_candidates
   \<and> trim (take 1 greedy_candidates) 1000 ([], 0) = (take 1 greedy_candidates, 800)
   \<and> 800 + tokens (greedy_candidates ! 1) > 1000
   \<and> 800 + tokens (greedy_candidates ! 2) \<le> 1000
   \<and> trim greedy_candidates 1000 ([], 0) = ([candidate ''a.py'' ''python'' 800 3], 800)"
proof -
  have 1: "(1::nat) < length greedy_candidates" by (simp add: greedy_candidates_def)
  have 2: "trim (take 1 greedy_candidates) 1000 ([], 0) = (take 1 greedy_candidates, 800)"
    by (simp add: greedy_candidates_def candidate_def)
  have 3: "800 + tokens (greedy_candidates ! 1) > 1000"
    by (simp add: greedy_candidates_def candidate_def)
  have 4: "800 + tokens (greedy_candidates ! 2) \<le> 1000"
    by (simp add: greedy_candidates_def candidate_def)
  have 5: "take 1 greedy_candidates = [candidate ''a.py'' ''python'' 800 3]"
    by (simp add: greedy_candidates_def)
  from greedy_cut [OF 1 2 3]
  have 6: "trim greedy_candidates 1000 ([], 0) = ([candidate ''a.py'' ''python'' 800 3], 800)"
    by (simp only: 5)
  from 1 2 3 4 6 show ?thesis by blast
qed

section \<open>The order of the selected files\<close>

text \<open>
  C6. The selected files are in descending order of \<open>relevance_score\<close>, the float that
  \<open>calculate_relevance_score\<close> returns and that is the key of the sort, and the sort is
  stable: for every score \<open>v\<close>, the selected files of score \<open>v\<close> are, in this order, an
  initial part of the files of score \<open>v\<close> in the order in which the directory walk met
  them.
\<close>

theorem selected_files_order:
  "sorted_wrt (\<lambda>a b. relevance_score a \<ge> relevance_score b)
      (files (scan_codebase fs tk ul dir max_tokens))
   \<and> prefix (filter (\<lambda>f. relevance_score f = v) (files (scan_codebase fs tk ul dir max_tokens)))
             (filter (\<lambda>f. relevance_score f = v) (files_in_walk_order fs tk ul dir))"
proof -
  let ?cs = "sort_reverse relevance_score (files_in_walk_order fs tk ul dir)"
  have f: "files (scan_codebase fs tk ul dir max_tokens) = fst (trim ?cs max_tokens ([], 0))"
    by (simp add: scan_codebase_def Let_def split: prod.splits)
  obtain n where n: "fst (trim ?cs max_tokens ([], 0)) = take n ?cs"
    using trim_prefix by blast
  have "sorted_wrt (\<lambda>a b. relevance_score a \<ge> relevance_score b) (take n ?cs)"
    using sort_reverse_descending [of relevance_score] by (rule sorted_wrt_take)
  moreover have "prefix (filter (\<lambda>f. relevance_score f = v) (take n ?cs))
      (filter (\<lambda>f. relevance_score f = v) (files_in_walk_order fs tk ul dir))"
    using prefix_filter_take [of "\<lambda>f. relevance_score f = v" n ?cs]
    by (simp add: sort_reverse_stable)
  ultimately show ?thesis by (simp add: f n)
qed

text \<open>
  The order theorem at three small Python files that the walk meets as \<open>test_b.py\<close>,
  \<open>tests/a.py\<close>, \<open>test_c.py\<close>. The score of \<open>test_b.py\<close> and of \<open>test_c.py\<close> is the float
  \<open>1.2 * 1.1 * 0.7 = 0.9239999999999999\<close>, and the score of \<open>tests/a.py\<close> is the float
  \<open>1.2 * 0.7 * 1.1 = 0.924\<close>: the three products are equal as real numbers and differ
  as floats. \<open>tests/a.py\<close> is selected first, and the two files of equal score follow in
  the order of the walk.
\<close>

theorem selected_files_order_witness:
  "\<forall>ul.
     sorted_wrt (\<lambda>a b. relevance_score a \<ge> relevance_score b)
       (files (scan_codebase ties_fs None ul (ascii ''/proj'') 900000))
   \<and> prefix (filter (\<lambda>f. relevance_score f = 2080663027845169 / 2251799813685248)
                (files (scan_codebase ties_fs None ul (ascii ''/proj'') 900000)))
             (filter (\<lambda>f. relevance_score f = 2080663027845169 / 2251799813685248)
                (files_in_walk_order ties_fs None ul (ascii ''/proj'')))
   \<and> map relative_path (files_in_walk_order ties_fs None ul (ascii ''/proj''))
        = [ascii ''test_b.py'', ascii ''tests/a.py'', ascii ''test_c.py'']
   \<and> map relevance_score (files_in_walk_order ties_fs None ul (ascii ''/proj''))
        = [fmul (fmul (flit (12 / 10)) (flit (11 / 10))) (flit (7 / 10)),
           fmul (fmul (flit (12 / 10)) (flit (7 / 10))) (flit (11 / 10)),
           fmul (fmul (flit (12 / 10)) (flit (11 / 10))) (flit (7 / 10))]
   \<and> fmul (fmul (flit (12 / 10)) (flit (11 / 10))) (flit (7 / 10))
        = 2080663027845169 / 2251799813685248
   \<and> fmul (fmul (flit (12 / 10)) (flit (7 / 10))) (flit (11 / 10))
        = 8322652111380677 / 9007199254740992
   \<and> map relative_path (files (scan_codebase ties_fs None ul (ascii ''/proj'') 900000))
        = [ascii ''tests/a.py'', ascii ''test_b.py'', ascii ''test_c.py'']"
proof
  fix ul :: "pystr \<Rightarrow> pystr"
  have 1: "fmul (fmul (flit (12 / 10)) (flit (11 / 10))) (flit (7 / 10))
        = 2080663027845169 / 2251799813685248"
    by (simp add: float_eval)
  have 2: "fmul (fmul (flit (12 / 10)) (flit (7 / 10))) (flit (11 / 10))
        = 8322652111380677 / 9007199254740992"
    by (simp add: float_eval)
  have 3: "map relevance_score (files_in_walk_order ties_fs None ul (ascii ''/proj''))
        = [fmul (fmul (flit (12 / 10)) (flit (11 / 10))) (flit (7 / 10)),
           fmul (fmul (flit (12 / 10)) (flit (7 / 10))) (flit (11 / 10)),
           fmul (fmul (flit (12 / 10)) (flit (11 / 10))) (flit (7 / 10))]"
    unfolding 1 2 by (simp add: ties_scan(2) float_eval)
  from selected_files_order [of ties_fs None ul "ascii ''/proj''" 900000
      "2080663027845169 / 2251799813685248"] ties_scan(1) [of ul] ties_scan(3) [of ul] 1 2 3
  show "sorted_wrt (\<lambda>a b. relevance_score a \<ge> relevance_score b)
       (files (scan_codebase ties_fs None ul (ascii ''/proj'') 900000))
   \<and> prefix (filter (\<lambda>f. relevance_score f = 2080663027845169 / 2251799813685248)
                (files (scan_codebase ties_fs None ul (ascii ''/proj'') 900000)))
             (filter (\<lambda>f. relevance_score f = 2080663027845169 / 2251799813685248)
                (files_in_walk_order ties_fs None ul (ascii ''/proj'')))
   \<and> map relative_path (files_in_walk_order ties_fs None ul (ascii ''/proj''))
        = [ascii ''test_b.py'', ascii ''tests/a.py'', ascii ''test_c.py'']
   \<and> map relevance_score (files_in_walk_order ties_fs None ul (ascii ''/proj''))
        = [fmul (fmul (flit (12 / 10)) (flit (11 / 10))) (flit (7 / 10)),
           fmul (fmul (flit (12 / 10)) (flit (7 / 10))) (flit (11 / 10)),
           fmul (fmul (flit (12 / 10)) (flit (11 / 10))) (flit (7 / 10))]
   \<and> fmul (fmul (flit (12 / 10)) (flit (11 / 10))) (flit (7 / 10))
        = 2080663027845169 / 2251799813685248
   \<and> fmul (fmul (flit (12 / 10)) (flit (7 / 10))) (flit (11 / 10))
        = 8322652111380677 / 9007199254740992
   \<and> map relative_path (files (scan_codebase ties_fs None ul (ascii ''/proj'') 900000))
        = [ascii ''tests/a.py'', ascii ''test_b.py'', ascii ''test_c.py'']"
    by blast
qed

section \<open>The scenario of three files\<close>

text \<open>
  C4 (as the code has it). Scanning a directory that contains exactly \<open>src/app.py\<close>
  (800 tokens), \<open>tests/test_app.py\<close> (800 tokens) and \<open>README.md\<close> (200 tokens), met
  by the walk in any order together with the two directories, with \<open>max_tokens = 1000\<close>:
  \<open>src/app.py\<close> is ranked first with the score \<open>1.2 * 1.3 * 1.5\<close>, which is the float
  2.34 (\<open>app.py\<close> is one of the main file names, and the size stage leaves the score as
  it is), \<open>README.md\<close> is second with the score 1.0, and both are selected, since
  800 + 200 does not exceed 1000; \<open>total_tokens\<close> is 1000, two files are selected and
  three were scanned.
\<close>

theorem scenario_selection:
  assumes "mset (rglob fs (resolve fs dir)) =
      {#d1, d2, file_entry ''src/app.py'' c1 m1,
        file_entry ''tests/test_app.py'' c2 m2, file_entry ''README.md'' c3 m3#}"
    and "is_dir d1" and "is_dir d2"
    and "count_tokens tk c1 = Some 800" and "count_tokens tk c2 = Some 800"
    and "count_tokens tk c3 = Some 200"
    and "py_strip c1 \<noteq> []" and "py_strip c2 \<noteq> []" and "py_strip c3 \<noteq> []"
  shows "map relative_path (files (scan_codebase fs tk ul dir 1000))
            = [ascii ''src/app.py'', ascii ''README.md'']
       \<and> map relevance_score (files (scan_codebase fs tk ul dir 1000))
            = [fmul (fmul (flit (12 / 10)) (flit (13 / 10))) (flit (15 / 10)), flit 1]
       \<and> fmul (fmul (flit (12 / 10)) (flit (13 / 10))) (flit (15 / 10)) = flit (234 / 100)
       \<and> total_tokens (scan_codebase fs tk ul dir 1000) = 1000
       \<and> total_files (scan_codebase fs tk ul dir 1000) = 2
       \<and> scanned_files (scan_codebase fs tk ul dir 1000) = 3"
  by (simp add: scenario_scan_general [OF assms] float_eval)

text \<open>The scenario with the fallback estimator and files of 3200, 3200 and 800
  characters.\<close>

theorem scenario_selection_witness:
  "\<forall>ul.
     mset (rglob scenario_fs (resolve scenario_fs (ascii ''/proj''))) =
      {#dir_entry ''src'', dir_entry ''tests'', file_entry ''src/app.py'' app_py_text 0,
        file_entry ''tests/test_app.py'' test_app_py_text 0,
        file_entry ''README.md'' readme_md_text 0#}
   \<and> is_dir (dir_entry ''src'') \<and> is_dir (dir_entry ''tests'')
   \<and> count_tokens None app_py_text = Some 800
   \<and> count_tokens None test_app_py_text = Some 800
   \<and> count_tokens None readme_md_text = Some 200
   \<and> py_strip app_py_text \<noteq> [] \<and> py_strip test_app_py_text \<noteq> []
   \<and> py_strip readme_md_text \<noteq> []
   \<and> map relative_path (files (scan_codebase scenario_fs None ul (ascii ''/proj'') 1000))
        = [ascii ''src/app.py'', ascii ''README.md'']
   \<and> map relevance_score (files (scan_codebase scenario_fs None ul (ascii ''/proj'') 1000))
        = [flit (234 / 100), 1]
   \<and> total_tokens (scan_codebase scenario_fs None ul (ascii ''/proj'') 1000) = 1000
   \<and> total_files (scan_codebase scenario_fs None ul (ascii ''/proj'') 1000) = 2
   \<and> scanned_files (scan_codebase scenario_fs None ul (ascii ''/proj'') 1000) = 3"
proof
  fix ul :: "pystr \<Rightarrow> pystr"
  from scenario_selection [OF scenario_fs_walk scenario_texts, of ul]
    scenario_fs_walk scenario_texts
  show "mset (rglob scenario_fs (resolve scenario_fs (ascii ''/proj''))) =
      {#dir_entry ''src'', dir_entry ''tests'', file_entry ''src/app.py'' app_py_text 0,
        file_entry ''tests/test_app.py'' test_app_py_text 0,
        file_entry ''README.md'' readme_md_text 0#}
   \<and> is_dir (dir_entry ''src'') \<and> is_dir (dir_entry ''tests'')
   \<and> count_tokens None app_py_text = Some 800
   \<and> count_tokens None test_app_py_text = Some 800
   \<and> count_tokens None readme_md_text = Some 200
   \<and> py_strip app_py_text \<noteq> [] \<and> py_strip test_app_py_text \<noteq> []
   \<and> py_strip readme_md_text \<noteq> []
   \<and> map relative_path (files (scan_codebase scenario_fs None ul (ascii ''/proj'') 1000))
        = [ascii ''src/app.py'', ascii ''README.md'']
   \<and> map relevance_score (files (scan_codebase scenario_fs None ul (ascii ''/proj'') 1000))
        = [flit (234 / 100), 1]
   \<and> total_tokens (scan_codebase scenario_fs None ul (ascii ''/proj'') 1000) = 1000
   \<and> total_files (scan_codebase scenario_fs None ul (ascii ''/proj'') 1000) = 2
   \<and> scanned_files (scan_codebase scenario_fs None ul (ascii ''/proj'') 1000) = 3"
    by (simp add: float_eval)
qed

text \<open>
  C4 (as the specification states it) fails on that scenario: the first file's score
  is the float 2.34 and not the float 1.56 (which is \<open>1.2 * 1.3\<close>), two files are
  selected and not one, and 1000 tokens are used and not 800.
\<close>

theorem scenario_claim_counterexample:
  "\<forall>ul.
     \<not> (relevance_score (hd (files (scan_codebase scenario_fs None ul (ascii ''/proj'') 1000)))
          = flit (156 / 100)
       \<and> total_files (scan_codebase scenario_fs None ul (ascii ''/proj'') 1000) = 1
       \<and> total_tokens (scan_codebase scenario_fs None ul (ascii ''/proj'') 1000) = 800)
   \<and> relative_path (hd (files (scan_codebase scenario_fs None ul (ascii ''/proj'') 1000)))
       = ascii ''src/app.py''
   \<and> relevance_score (hd (files (scan_codebase scenario_fs None ul (ascii ''/proj'') 1000)))
       = flit (234 / 100)
   \<and> flit (234 / 100) \<noteq> flit (156 / 100)
   \<and> fmul (flit (12 / 10)) (flit (13 / 10)) = flit (156 / 100)
   \<and> total_files (scan_codebase scenario_fs None ul (ascii ''/proj'') 1000) = 2
   \<and> total_tokens (scan_codebase scenario_fs None ul (ascii ''/proj'') 1000) = 1000
   \<and> scanned_files (scan_codebase scenario_fs None ul (ascii ''/proj'') 1000) = 3"
  by (simp add: scenario_scan float_eval)

section \<open>The filters of the scan\<close>

text \<open>
  C5 (as the code has it). No record of a scan result has a file extension whose
  lower-case form (\<open>str.lower\<close>) is outside \<open>CODE_EXTENSIONS\<close>, nor a relative path that
  contains a string of \<open>SKIP_PATTERNS\<close>, nor a content that is empty once stripped
  (\<open>str.strip\<close>, which removes every character that \<open>str.isspace\<close> accepts), nor more
  than 50000 tokens. This holds whatever \<open>str.lower\<close> does to strings with characters
  outside ASCII.
\<close>

theorem scan_result_filters:
  "\<forall>info \<in> set (files (scan_codebase fs tk ul dir max_tokens)).
      py_lower ul (path_suffix (path info)) \<in> CODE_EXTENSIONS
    \<and> \<not> (\<exists>pattern \<in> SKIP_PATTERNS. sublist pattern (relative_path info))
    \<and> py_strip (content info) \<noteq> []
    \<and> tokens info \<le> 50000"
proof
  fix info
  assume "info \<in> set (files (scan_codebase fs tk ul dir max_tokens))"
  then have "info \<in> set (files_in_walk_order fs tk ul dir)"
    using selected_subset_walk by blast
  then obtain e where "scan_file tk ul (resolve fs dir) e = Some info"
    unfolding files_in_walk_order_eq by (blast dest: set_map_filter_Some)
  from scan_file_Some [OF this]
  show "py_lower ul (path_suffix (path info)) \<in> CODE_EXTENSIONS
    \<and> \<not> (\<exists>pattern \<in> SKIP_PATTERNS. sublist pattern (relative_path info))
    \<and> py_strip (content info) \<noteq> []
    \<and> tokens info \<le> 50000"
    by simp
qed

text \<open>The filter theorem at the first record of the scenario's scan result.\<close>

theorem scan_result_filters_witness:
  "\<forall>ul.
     hd (files (scan_codebase scenario_fs None ul (ascii ''/proj'') 1000))
       \<in> set (files (scan_codebase scenario_fs None ul (ascii ''/proj'') 1000))
   \<and> path (hd (files (scan_codebase scenario_fs None ul (ascii ''/proj'') 1000)))
       = ascii ''/proj/src/app.py''
   \<and> py_lower ul
        (path_suffix (path (hd (files (scan_codebase scenario_fs None ul (ascii ''/proj'') 1000)))))
       \<in> CODE_EXTENSIONS
   \<and> \<not> (\<exists>pattern \<in> SKIP_PATTERNS. sublist pattern
          (relative_path (hd (files (scan_codebase scenario_fs None ul (ascii ''/proj'') 1000)))))
   \<and> py_strip (content (hd (files (scan_codebase scenario_fs None ul (ascii ''/proj'') 1000))))
       \<noteq> []
   \<and> tokens (hd (files (scan_codebase scenario_fs None ul (ascii ''/proj'') 1000))) \<le> 50000"
proof
  fix ul :: "pystr \<Rightarrow> pystr"
  let ?r = "scan_codebase scenario_fs None ul (ascii ''/proj'') 1000"
  have m: "hd (files ?r) \<in> set (files ?r)" by (simp add: scenario_scan)
  have p: "path (hd (files ?r)) = ascii ''/proj/src/app.py''" by (simp add: scenario_scan)
  from scan_result_filters [of scenario_fs None ul "ascii ''/proj''" 1000] m
  have "py_lower ul (path_suffix (path (hd (files ?r)))) \<in> CODE_EXTENSIONS
    \<and> \<not> (\<exists>pattern \<in> SKIP_PATTERNS. sublist pattern (relative_path (hd (files ?r))))
    \<and> py_strip (content (hd (files ?r))) \<noteq> []
    \<and> tokens (hd (files ?r)) \<le> 50000"
    by (rule bspec)
  with m p show "hd (files ?r) \<in> set (files ?r)
   \<and> path (hd (files ?r)) = ascii ''/proj/src/app.py''
   \<and> py_lower ul (path_suffix (path (hd (files ?r)))) \<in> CODE_EXTENSIONS
   \<and> \<not> (\<exists>pattern \<in> SKIP_PATTERNS. sublist pattern (relative_path (hd (files ?r))))
   \<and> py_strip (content (hd (files ?r))) \<noteq> []
   \<and> tokens (hd (files ?r)) \<le> 50000"
    by blast
qed

text \<open>
  C5 (as the specification states it) fails for the extension: the file \<open>SETUP.PY\<close> is
  accepted, because the code compares the lower-case form of the extension, and the
  extension \<open>.PY\<close> of the resulting record is not in \<open>CODE_EXTENSIONS\<close>.
\<close>

theorem capitals_counterexample:
  "\<forall>ul.
     map path (files (scan_codebase capitals_fs None ul (ascii ''/proj'') 900000))
       = [ascii ''/proj/SETUP.PY'']
   \<and> path_suffix (ascii ''/proj/SETUP.PY'') = ascii ''.PY''
   \<and> ascii ''.PY'' \<notin> CODE_EXTENSIONS"
proof -
  have "path_suffix (ascii ''/proj/SETUP.PY'') = ascii ''.PY''"
    and "ascii ''.PY'' \<notin> CODE_EXTENSIONS"
    by (simp_all add: CODE_EXTENSIONS_def string_eval)
  then show ?thesis by (simp add: capitals_scan)
qed

section \<open>The serialized document\<close>



section \<open>Loading a project path that does not exist\<close>

text \<open>
  C8. When \<open>os.path.exists(project_path)\<close> is false, \<open>load_codebase\<close> answers with the
  error text for that path and leaves the session (context, project path and scan
  data) as it was; the answer does not depend on what a walk of the file system would
  yield, so no scan takes part in it.
\<close>

theorem load_missing_path_keeps_session:
  assumes "\<not> path_exists fs ppath"
  shows "handle_load_codebase fs tk ul fmt2f (Some ppath) max_tokens_arg st
           = (Tool_result (Project_path_does_not_exist ppath), st)
       \<and> handle_load_codebase (fs\<lparr>rglob := walk\<rparr>) tk ul fmt2f (Some ppath) max_tokens_arg st
           = handle_load_codebase fs tk ul fmt2f (Some ppath) max_tokens_arg st"
  using assms by (simp add: handle_load_codebase_def Let_def)

text \<open>The theorem at the previous session left by loading the scenario, and a path that
  is not in the file system.\<close>

theorem load_missing_path_witness:
  "\<not> path_exists scenario_fs (ascii ''/missing'')
   \<and> handle_load_codebase scenario_fs None (\<lambda>s. s) (\<lambda>score. ascii ''#.##'')
         (Some (ascii ''/missing'')) None loaded_session
       = (Tool_result (Project_path_does_not_exist (ascii ''/missing'')), loaded_session)
   \<and> current_project_path loaded_session = Some (ascii ''/proj'')
   \<and> map_option total_tokens (current_codebase_data loaded_session) = Some 1000"
proof -
  have h: "\<not> path_exists scenario_fs (ascii ''/missing'')"
    by (simp add: scenario_fs_def tree_fs_def scenario_walk_def file_entry_def dir_entry_def
          path_join_def ascii_def)
  from load_missing_path_keeps_session [OF h, of None "\<lambda>s. s" "\<lambda>score. ascii ''#.##''" None
      loaded_session] h loaded_session_fields
  show ?thesis by simp
qed

section \<open>The size tier of the score\<close>

text \<open>
  C3 (the code at the inputs where it departs from the claim). The size stage tests
  \<open>tokens > 5000\<close> before \<open>tokens > 10000\<close>, so its third branch is never taken: no
  token count gets the factor 0.6, and a file of 10001 tokens gets 0.8. For a Python
  file \<open>big.py\<close> of 20000 tokens the score is the float \<open>1.2 * 0.8 = 0.96\<close> and not
  \<open>1.2 * 0.6 = 0.72\<close>. At the other boundaries the code does what the claim says: the
  factor is 1.1 for 99 tokens, the score is left as it is for 100 and for exactly 5000
  tokens, and the factor is 0.8 for 5001 and for 10000 tokens.
\<close>

theorem size_factor_tiers:
  "size_factor t \<noteq> Some (flit (6 / 10))
   \<and> size_factor 10001 = Some (flit (8 / 10))
   \<and> calculate_relevance_score ul (candidate ''big.py'' ''python'' 20000 0) (ascii ''/proj'')
       = fmul (flit (12 / 10)) (flit (8 / 10))
   \<and> fmul (flit (12 / 10)) (flit (8 / 10)) = flit (96 / 100)
   \<and> fmul (flit (12 / 10)) (flit (8 / 10)) \<noteq> fmul (flit (12 / 10)) (flit (6 / 10))
   \<and> size_factor 99 = Some (flit (11 / 10)) \<and> size_factor 100 = None
   \<and> size_factor 5000 = None
   \<and> size_factor 5001 = Some (flit (8 / 10)) \<and> size_factor 10000 = Some (flit (8 / 10))"
proof -
  have "size_factor t \<noteq> Some (flit (6 / 10))" by (simp add: size_factor_def float_eval)
  moreover have "size_factor 10001 = Some (flit (8 / 10))" by (simp add: size_factor_def)
  moreover have "calculate_relevance_score ul (candidate ''big.py'' ''python'' 20000 0)
      (ascii ''/proj'') = fmul (flit (12 / 10)) (flit (8 / 10))"
    by (simp add: candidate_def calculate_relevance_score_def small_file_factors
          scenario_factors size_factor_def scaled_def float_eval)
  moreover have "fmul (flit (12 / 10)) (flit (8 / 10)) = flit (96 / 100)"
    "fmul (flit (12 / 10)) (flit (8 / 10)) \<noteq> fmul (flit (12 / 10)) (flit (6 / 10))"
    by (simp_all add: float_eval)
  moreover have "size_factor 99 = Some (flit (11 / 10)) \<and> size_factor 100 = None
   \<and> size_factor 5000 = None
   \<and> size_factor 5001 = Some (flit (8 / 10)) \<and> size_factor 10000 = Some (flit (8 / 10))"
    by (simp add: size_factor_def)
  ultimately show ?thesis by blast
qed

section \<open>Files inside hidden directories\<close>

text \<open>
  C10. The hidden-file test looks at the last component of a path only. In a project
  whose one file is \<open>.hidden/util.py\<close>, the name \<open>util.py\<close> does not start with a dot
  although the path lies in the hidden directory \<open>.hidden\<close>; the file passes every
  filter and is in the scan result.
\<close>

theorem hidden_directory_file_included:
  "\<not> startswith (path_name (ascii ''.hidden/util.py'')) (ascii ''.'')
   \<and> startswith (ascii ''.hidden/util.py'') (ascii ''.hidden/'')
   \<and> map relative_path (files (scan_codebase hidden_dir_fs None ul (ascii ''/proj'') 900000))
       = [ascii ''.hidden/util.py'']"
proof -
  have "\<not> startswith (path_name (ascii ''.hidden/util.py'')) (ascii ''.'')"
    and "startswith (ascii ''.hidden/util.py'') (ascii ''.hidden/'')"
    by (simp_all add: string_eval)
  then show ?thesis by (simp add: hidden_dir_scan)
qed

end
